theory Spec2Isabelle
  imports Complex_Main
begin

section \<open>Conventions\<close>

text \<open>
  The robot code is Python. Its floats are modelled as the reals (no rounding, no NaN),
  its dictionaries as records whose optional keys are \<open>option\<close> fields, its strings as
  \<open>string\<close>, and every \<open>raise\<close> as a value \<open>Inl e\<close> of a sum type. Objects with mutable
  attributes are records that the functions take and return. Readings of the wall clock
  (\<open>time.time()\<close>) are arguments of the functions that read it.
\<close>

datatype py_error = KeyError | ZeroDivisionError

section \<open>Obstacle-type classification (nested \<open>track_main.py\<close>)\<close>

text \<open>
  \<open>TrackSystem.analyze_obstacle_type(qr_distance, ultrasonic_distance)\<close>. The marker
  distance may be \<open>None\<close>; the division raises when it is zero.
\<close>

definition analyze_obstacle_type :: "real option \<Rightarrow> real \<Rightarrow> py_error + string" where
  "analyze_obstacle_type qr_distance ultrasonic_distance =
     (case qr_distance of
        None \<Rightarrow> Inr ''unknown''
      | Some q \<Rightarrow>
          if ultrasonic_distance > 300 then Inr ''unknown''
          else if q = 0 then Inl ZeroDivisionError
          else
            (let ratio = ultrasonic_distance / q in
             if 0.8 \<le> ratio \<and> ratio \<le> 1.2 then Inr ''wall_qr''
             else if ratio < 0.8 then Inr ''ground_obstacle''
             else Inr ''error_or_tilted''))"

section \<open>Target localizer (\<open>qr_detector.py\<close>)\<close>

type_synonym point = "real \<times> real"

text \<open>The four corners \<open>p1, p2, p3, p4 = pts\<close>, in the decoder's order.\<close>

type_synonym corners = "point \<times> point \<times> point \<times> point"

record camera_cfg =
  fx :: real
  fy :: real
  cx :: real
  cy :: real
  qr_size_cm :: real

text \<open>\<open>np.linalg.norm\<close> of a 2-vector, and the difference of two points.\<close>

definition norm2 :: "point \<Rightarrow> real" where
  "norm2 p = sqrt (fst p * fst p + snd p * snd p)"

definition psub :: "point \<Rightarrow> point \<Rightarrow> point" where
  "psub a b = (fst a - fst b, snd a - snd b)"

text \<open>
  \<open>pixel_size = (width1 + width2) / 2.0\<close> with \<open>width1 = norm(p2 - p1)\<close> and
  \<open>width2 = norm(p3 - p4)\<close>; both variants of the detector compute it this way.
\<close>

definition pixel_size :: "corners \<Rightarrow> real" where
  "pixel_size pts =
     (case pts of (p1, p2, p3, p4) \<Rightarrow>
        (norm2 (psub p2 p1) + norm2 (psub p3 p4)) / 2)"

text \<open>\<open>QRDetector._estimate_distance\<close>: \<open>None\<close> is the cannot-estimate result.\<close>

definition estimate_distance :: "camera_cfg \<Rightarrow> corners \<Rightarrow> real option" where
  "estimate_distance cfg pts =
     (if pixel_size pts < 1 / 100000 then None
      else Some ((qr_size_cm cfg * fx cfg) / pixel_size pts))"

text \<open>The offsets dictionary and the detector's result dictionary; \<open>{"lost": True}\<close> has
  no other key.\<close>

record qr_offsets =
  cx_off :: real
  cy_off :: real
  yaw_trend :: real
  pitch_trend :: real

record qr_state =
  lost :: "bool option"
  data :: "string option"
  distance_cm :: "real option"
  offsets :: "qr_offsets option"
  points :: "corners option"

definition lost_state :: qr_state where
  "lost_state = \<lparr>lost = Some True, data = None, distance_cm = None, offsets = None, points = None\<rparr>"

text \<open>\<open>QRDetector._compute_offsets\<close>: \<open>pts.mean(axis=0)\<close> is the centroid.\<close>

definition compute_offsets :: "camera_cfg \<Rightarrow> corners \<Rightarrow> qr_offsets" where
  "compute_offsets cfg pts =
     (case pts of (p0, p1, p2, p3) \<Rightarrow>
        (let center = ((fst p0 + fst p1 + fst p2 + fst p3) / 4,
                       (snd p0 + snd p1 + snd p2 + snd p3) / 4);
             left_vec = psub p0 p3;
             right_vec = psub p1 p2;
             top_y = (snd p0 + snd p1) / 2;
             bottom_y = (snd p2 + snd p3) / 2
         in \<lparr>cx_off = fst center - cx cfg,
             cy_off = snd center - cy cfg,
             yaw_trend = (snd left_vec - snd right_vec) / 2,
             pitch_trend = bottom_y - top_y\<rparr>))"

text \<open>
  What \<open>detectAndDecodeMulti\<close> hands to \<open>detect\<close>: \<open>retval\<close>, the decoded payloads (a
  payload may be null or the empty string) and the corner sets, or \<open>None\<close> for them.
\<close>

type_synonym decoded = "bool \<times> string option list \<times> corners list option"

text \<open>Python's \<open>not data\<close>: true for \<open>None\<close> and for the empty string.\<close>

definition not_data :: "string option \<Rightarrow> bool" where
  "not_data d = (case d of None \<Rightarrow> True | Some s \<Rightarrow> s = [])"

text \<open>
  The loop of the nested \<open>QRDetector.detect\<close> over \<open>zip(data_list, pts_list)\<close>; the
  accumulator is \<open>(best_target, best_dist)\<close>.
\<close>

type_synonym best = "(string \<times> corners \<times> real) option \<times> real"

fun detect_loop :: "camera_cfg \<Rightarrow> (string option \<times> corners) list \<Rightarrow> best \<Rightarrow> best" where
  "detect_loop cfg [] acc = acc"
| "detect_loop cfg ((d, pts) # rest) (best_target, best_dist) =
     (if not_data d then detect_loop cfg rest (best_target, best_dist)
      else if pixel_size pts < 20 then detect_loop cfg rest (best_target, best_dist)
      else
        (case (d, estimate_distance cfg pts) of
           (Some s, Some dist_cm) \<Rightarrow>
             if dist_cm < best_dist
             then detect_loop cfg rest (Some (s, pts, dist_cm), dist_cm)
             else detect_loop cfg rest (best_target, best_dist)
         | _ \<Rightarrow> detect_loop cfg rest (best_target, best_dist)))"

definition detect :: "camera_cfg \<Rightarrow> decoded \<Rightarrow> qr_state" where
  "detect cfg frame =
     (case frame of (retval, data_list, pts_list) \<Rightarrow>
        (case pts_list of
           None \<Rightarrow> lost_state
         | Some pl \<Rightarrow>
             if \<not> retval \<or> length data_list = 0 then lost_state
             else
               (case fst (detect_loop cfg (zip data_list pl) (None, 1000000000)) of
                  None \<Rightarrow> lost_state
                | Some (d, pts, dist_cm) \<Rightarrow>
                    \<lparr>lost = Some False, data = Some d, distance_cm = Some dist_cm,
                     offsets = Some (compute_offsets cfg pts), points = Some pts\<rparr>)))"

text \<open>A camera and marker configuration used in the examples.\<close>

definition cam0 :: camera_cfg where
  "cam0 = \<lparr>fx = 600, fy = 600, cx = 320, cy = 240, qr_size_cm = 5\<rparr>"

text \<open>The axis-parallel square with corner (0, 0) and edge \<open>a\<close>.\<close>

definition square :: "real \<Rightarrow> corners" where
  "square a = ((0, 0), (a, 0), (a, a), (0, a))"

text \<open>
  Two notions used to state what \<open>detect\<close> selects: a candidate survives the loop's
  filters when its payload is non-empty and its pixel edge length is not below 20, and
  \<open>dist_of\<close> is the distance formula of \<open>_estimate_distance\<close>.
\<close>

definition survives :: "string option \<times> corners \<Rightarrow> bool" where
  "survives c = (\<not> not_data (fst c) \<and> \<not> pixel_size (snd c) < 20)"

definition dist_of :: "camera_cfg \<Rightarrow> corners \<Rightarrow> real" where
  "dist_of cfg pts = (qr_size_cm cfg * fx cfg) / pixel_size pts"

text \<open>
  Two quadrilaterals with oblique edges: \<open>p2 - p1 = (3, 4)\<close> and \<open>p3 - p4 = (6, 8)\<close> in
  the first (edge norms 5 and 10), \<open>p2 - p1 = (90, 120)\<close> and \<open>p3 - p4 = (120, 90)\<close> in
  the second (both norms 150).
\<close>

definition oblique_small :: corners where
  "oblique_small = ((10, 20), (13, 24), (14, 38), (8, 30))"

definition oblique_large :: corners where
  "oblique_large = ((5, 7), (95, 127), (130, 590), (10, 500))"

text \<open>A frame with three decoded markers of 10, 50 and 100 pixels.\<close>

definition frame3 :: decoded where
  "frame3 = (True, [Some ''A'', Some ''B'', Some ''C''], Some [square 10, square 50, square 100])"

section \<open>Obstacle avoidance state machine (nested \<open>obstacle_sensor.py\<close>)\<close>

datatype phase_name = TURN_RIGHT | FORWARD_1 | TURN_LEFT | FORWARD_2 | STOP_CLOSE

text \<open>
  The attributes of \<open>ObstacleSensor\<close>. \<open>phase = None\<close> is Python's \<open>None\<close>. The last
  field is not an attribute of the class: it records, in order, every value assigned to
  \<open>self.phase\<close>, so that properties of the successive values of the field can be stated.
\<close>

record obstacle_sensor =
  safe_distance_cm :: real
  stop_distance_cm :: real
  right_turn_time :: real
  forward_time_1 :: real
  left_turn_time :: real
  forward_time_2 :: real
  avoid_mode :: bool
  phase :: "phase_name option"
  phase_start :: real
  last_distance :: real
  consecutive_readings :: "real list"
  dynamic_safe_distance :: real
  phase_history :: "phase_name option list"

text \<open>\<open>self.filter_size = 5\<close>, set by \<open>__init__\<close> and never assigned again.\<close>

definition filter_size :: nat where
  "filter_size = 5"

text \<open>
  \<open>ObstacleSensor.__init__\<close>, from the six values it reads from the configuration (or
  their defaults); the dwell times are capped at \<open>max_reasonable_time = 5.0\<close>.
\<close>

definition ObstacleSensor_init :: "real \<Rightarrow> real \<Rightarrow> real \<Rightarrow> real \<Rightarrow> real \<Rightarrow> real \<Rightarrow> obstacle_sensor" where
  "ObstacleSensor_init safe stop rt f1 lt f2 =
     \<lparr>safe_distance_cm = safe, stop_distance_cm = stop,
      right_turn_time = min rt 5, forward_time_1 = min f1 5,
      left_turn_time = min lt 5, forward_time_2 = min f2 5,
      avoid_mode = False, phase = None, phase_start = 0, last_distance = 9999,
      consecutive_readings = [], dynamic_safe_distance = safe, phase_history = []\<rparr>"

text \<open>\<open>_start_phase(name)\<close> with the clock reading \<open>t\<close>, and \<open>_phase_elapsed()\<close>.\<close>

definition start_phase :: "phase_name \<Rightarrow> real \<Rightarrow> obstacle_sensor \<Rightarrow> obstacle_sensor" where
  "start_phase name t s =
     s\<lparr>phase := Some name, phase_start := t, phase_history := phase_history s @ [Some name]\<rparr>"

definition phase_elapsed :: "real \<Rightarrow> obstacle_sensor \<Rightarrow> real" where
  "phase_elapsed t s = t - phase_start s"

text \<open>
  \<open>_median_filter\<close>: append, drop the oldest reading when the window exceeds
  \<open>filter_size\<close>, return the element of index \<open>len // 2\<close> of the sorted window (the window
  is never empty here).
\<close>

definition median_filter :: "obstacle_sensor \<Rightarrow> real \<Rightarrow> real \<times> obstacle_sensor" where
  "median_filter s new_distance =
     (let rs = consecutive_readings s @ [new_distance];
          rs' = (if length rs > filter_size then tl rs else rs);
          sorted_readings = sort rs'
      in (sorted_readings ! (length sorted_readings div 2), s\<lparr>consecutive_readings := rs'\<rparr>))"

text \<open>Python's \<open>max\<close> and \<open>min\<close> of a list, read on a non-empty list only.\<close>

definition list_max :: "real list \<Rightarrow> real" where
  "list_max xs = fold max (tl xs) (hd xs)"

definition list_min :: "real list \<Rightarrow> real" where
  "list_min xs = fold min (tl xs) (hd xs)"

definition dynamic_threshold_adjust :: "obstacle_sensor \<Rightarrow> obstacle_sensor" where
  "dynamic_threshold_adjust s =
     (if length (consecutive_readings s) \<ge> filter_size then
        (let readings_range = list_max (consecutive_readings s) - list_min (consecutive_readings s)
         in if readings_range < 5
            then s\<lparr>dynamic_safe_distance := safe_distance_cm s * 1.1\<rparr>
            else s\<lparr>dynamic_safe_distance := safe_distance_cm s\<rparr>)
      else s)"

text \<open>
  \<open>read_distance\<close>. The argument is what \<open>float(self.reader())\<close> gives, \<open>None\<close> when it
  raises (the \<open>except\<close> branch returns the last distance).
\<close>

definition read_distance :: "obstacle_sensor \<Rightarrow> real option \<Rightarrow> real \<times> obstacle_sensor" where
  "read_distance s raw =
     (case raw of
        None \<Rightarrow> (last_distance s, s)
      | Some raw_distance \<Rightarrow>
          if raw_distance \<le> 0 then (last_distance s, s)
          else if raw_distance \<ge> 9999 then (9999, s)
          else
            (case median_filter s raw_distance of
               (filtered_distance, s1) \<Rightarrow>
                 (filtered_distance,
                  dynamic_threshold_adjust (s1\<lparr>last_distance := filtered_distance\<rparr>))))"

text \<open>
  The dictionary \<open>update\<close> returns. The motion controller reads it with further keys that
  \<open>track_main\<close> adds (\<open>obstacle_type\<close>, \<open>ground_obstacle_confirmed\<close>); a key that is
  absent, or whose value is \<open>None\<close>, is \<open>None\<close> here.
\<close>

record obstacle_state =
  o_obstacle_near :: "bool option"
  o_need_stop :: "bool option"
  o_avoid_mode :: "bool option"
  o_phase :: "phase_name option"
  o_action :: "string option"
  o_distance_cm :: "real option"
  o_safe_distance :: "real option"
  o_obstacle_type :: "string option"
  o_ground_obstacle_confirmed :: "bool option"

definition create_state ::
  "obstacle_sensor \<Rightarrow> bool \<Rightarrow> bool \<Rightarrow> phase_name option \<Rightarrow> string option \<Rightarrow> real \<Rightarrow> real \<Rightarrow> obstacle_state" where
  "create_state s obstacle_near need_stop ph action distance safe_distance =
     \<lparr>o_obstacle_near = Some obstacle_near, o_need_stop = Some need_stop,
      o_avoid_mode = Some (avoid_mode s), o_phase = ph, o_action = action,
      o_distance_cm = Some distance, o_safe_distance = Some safe_distance,
      o_obstacle_type = None, o_ground_obstacle_confirmed = None\<rparr>"

text \<open>
  The sequential phases of \<open>update\<close> (the part after the \<open>if not self.avoid_mode\<close>
  return). \<open>clk k\<close> is the \<open>k\<close>-th reading of \<open>time.time()\<close> during the call and \<open>n0\<close> the
  number of readings made so far. A phase whose dwell time has passed reads the clock
  three times: the test, the log line, and \<open>_start_phase\<close> of the next phase.
\<close>

definition update_phases ::
  "real \<Rightarrow> real \<Rightarrow> (nat \<Rightarrow> real) \<Rightarrow> obstacle_sensor \<Rightarrow> nat \<Rightarrow> obstacle_state \<times> obstacle_sensor" where
  "update_phases d csd clk s0 n0 =
     (if phase s0 = Some TURN_RIGHT \<and> phase_elapsed (clk n0) s0 < right_turn_time s0
      then (create_state s0 True False (Some TURN_RIGHT) (Some ''right'') d csd, s0)
      else
        (let (s1, n1) = (if phase s0 = Some TURN_RIGHT
                         then (start_phase FORWARD_1 (clk (n0 + 2)) s0, n0 + 3) else (s0, n0))
         in
         if phase s1 = Some FORWARD_1 \<and> phase_elapsed (clk n1) s1 < forward_time_1 s1
         then (create_state s1 True False (Some FORWARD_1) (Some ''forward'') d csd, s1)
         else
           (let (s2, n2) = (if phase s1 = Some FORWARD_1
                            then (start_phase TURN_LEFT (clk (n1 + 2)) s1, n1 + 3) else (s1, n1))
            in
            if phase s2 = Some TURN_LEFT \<and> phase_elapsed (clk n2) s2 < left_turn_time s2
            then (create_state s2 True False (Some TURN_LEFT) (Some ''left'') d csd, s2)
            else
              (let (s3, n3) = (if phase s2 = Some TURN_LEFT
                               then (start_phase FORWARD_2 (clk (n2 + 2)) s2, n2 + 3) else (s2, n2))
               in
               if phase s3 = Some FORWARD_2 then
                 (if phase_elapsed (clk n3) s3 < forward_time_2 s3
                  then (create_state s3 True False (Some FORWARD_2) (Some ''forward'') d csd, s3)
                  else
                    (let s4 = s3\<lparr>phase := None, phase_history := phase_history s3 @ [None]\<rparr>
                     in (create_state s4 (d \<le> csd) False None None d csd, s4)))
               else (create_state s3 (d \<le> csd) False (phase s3) None d csd, s3)))))"

text \<open>
  \<open>ObstacleSensor.update\<close>: the reader's result and the clock readings of the call are
  arguments; the result dictionary and the sensor after the call are returned.
\<close>

definition update :: "obstacle_sensor \<Rightarrow> real option \<Rightarrow> (nat \<Rightarrow> real) \<Rightarrow> obstacle_state \<times> obstacle_sensor" where
  "update s raw clk =
     (case read_distance s raw of
        (d, s1) \<Rightarrow>
          (let current_safe_distance = dynamic_safe_distance s1 in
           if d \<le> stop_distance_cm s1 then
             (let s2 = start_phase STOP_CLOSE (clk 0) (s1\<lparr>avoid_mode := True\<rparr>)
              in (create_state s2 True True (Some STOP_CLOSE) (Some ''stop'') d current_safe_distance, s2))
           else
             (let (s2, n2) = (if d \<le> current_safe_distance \<and> \<not> avoid_mode s1
                              then (start_phase TURN_RIGHT (clk 0) (s1\<lparr>avoid_mode := True\<rparr>), 1)
                              else (s1, 0));
                  s3 = (if d > current_safe_distance * 1.8 \<and> avoid_mode s2 \<and> phase s2 = None
                        then s2\<lparr>avoid_mode := False\<rparr> else s2)
              in
              if \<not> avoid_mode s3
              then (create_state s3 False False None None d current_safe_distance, s3)
              else update_phases d current_safe_distance clk s3 n2)))"

text \<open>
  A sequence of polls: each poll gives the reader's result and the clock readings of
  that call.
\<close>

type_synonym poll = "real option \<times> (nat \<Rightarrow> real)"

fun run_updates :: "obstacle_sensor \<Rightarrow> poll list \<Rightarrow> obstacle_sensor" where
  "run_updates s [] = s"
| "run_updates s ((raw, clk) # ps) = run_updates (snd (update s raw clk)) ps"

text \<open>
  The steps the specification allows for the phase field: one step along the cycle
  \<open>None, TURN_RIGHT, FORWARD_1, TURN_LEFT, FORWARD_2, None\<close>, or entering \<open>STOP_CLOSE\<close>.
\<close>

fun step_ok :: "phase_name option \<Rightarrow> phase_name option \<Rightarrow> bool" where
  "step_ok a (Some STOP_CLOSE) = True"
| "step_ok None (Some TURN_RIGHT) = True"
| "step_ok (Some TURN_RIGHT) (Some FORWARD_1) = True"
| "step_ok (Some FORWARD_1) (Some TURN_LEFT) = True"
| "step_ok (Some TURN_LEFT) (Some FORWARD_2) = True"
| "step_ok (Some FORWARD_2) None = True"
| "step_ok a b = False"

fun chain_ok :: "phase_name option list \<Rightarrow> bool" where
  "chain_ok [] = True"
| "chain_ok [a] = True"
| "chain_ok (a # b # rest) = (step_ok a b \<and> chain_ok (b # rest))"

text \<open>The default thresholds and dwell times, and a clock that stands still.\<close>

definition sensor0 :: obstacle_sensor where
  "sensor0 = ObstacleSensor_init 30 12 0.8 0.6 0.8 0.6"

definition clock_at :: "real \<Rightarrow> nat \<Rightarrow> real" where
  "clock_at t k = t"

text \<open>
  The invariant of the sensor: the recorded history is a chain of allowed steps that ends
  in the current phase, and outside avoid mode the phase is \<open>None\<close>.
\<close>

definition hist_ok :: "obstacle_sensor \<Rightarrow> bool" where
  "hist_ok s = (chain_ok (None # phase_history s) \<and> last (None # phase_history s) = phase s)"

definition sensor_inv :: "obstacle_sensor \<Rightarrow> bool" where
  "sensor_inv s = (hist_ok s \<and> (avoid_mode s \<or> phase s = None))"

text \<open>
  Example runs: five polls at 25 cm, one second apart; a sensor in the middle of the
  maneuver; the sensor after one poll at 8 cm.
\<close>

definition polls5 :: "poll list" where
  "polls5 = [(Some 25, clock_at 0), (Some 25, clock_at 1), (Some 25, clock_at 2),
             (Some 25, clock_at 3), (Some 25, clock_at 4)]"

definition turning_left :: obstacle_sensor where
  "turning_left = sensor0\<lparr>avoid_mode := True, phase := Some TURN_LEFT,
     phase_history := [Some TURN_RIGHT, Some FORWARD_1, Some TURN_LEFT]\<rparr>"

definition after_stop :: obstacle_sensor where
  "after_stop = snd (update sensor0 (Some 8) (clock_at 0))"

section \<open>Motion synthesizer (nested \<open>motion_controller.py\<close>)\<close>

text \<open>
  The keys of \<open>speed_params.json\<close> that \<open>MotionController.__init__\<close> reads with
  \<open>sp.get(key, default)\<close>; \<open>None\<close> is an absent key. The file itself is not part of the
  sources, so the loaded dictionary is a parameter.
\<close>

record speed_params =
  sp_base_forward :: "real option"
  sp_forward_comp :: "real option"
  sp_base_turn :: "real option"
  sp_turn_comp :: "real option"
  sp_dead_zone_px :: "real option"
  sp_kp_dist :: "real option"
  sp_kp_pitch :: "real option"
  sp_kp_yaw :: "real option"
  sp_max_speed :: "real option"
  sp_min_speed :: "real option"
  sp_track_far_cm :: "real option"
  sp_stop_near_cm :: "real option"
  sp_obstacle_safe_distance :: "real option"
  sp_obstacle_stop_distance :: "real option"
  sp_search_base_speed :: "real option"
  sp_search_turn_gain :: "real option"
  sp_max_rotation_deviation :: "real option"

text \<open>Python's \<open>d.get(key, default)\<close>.\<close>

definition get_or :: "'a option \<Rightarrow> 'a \<Rightarrow> 'a" where
  "get_or v dflt = (case v of None \<Rightarrow> dflt | Some x \<Rightarrow> x)"

text \<open>The attributes of the nested \<open>MotionController\<close>.\<close>

record motion_controller =
  base_forward :: real
  forward_comp :: real
  base_turn :: real
  turn_comp :: real
  dead_zone_px :: real
  kp_dist :: real
  kp_pitch :: real
  kp_yaw :: real
  max_speed :: real
  min_speed :: real
  track_far :: real
  stop_near :: real
  obstacle_safe_distance :: real
  obstacle_stop_distance :: real
  search_base_speed :: real
  search_turn_gain :: real
  max_rotation_deviation :: real
  last_mode :: string
  cumulative_rotation :: real
  last_left_speed :: real
  last_right_speed :: real
  last_update_time :: real
  target_direction_history :: "real list"
  Halt :: real

text \<open>\<open>self.max_history = 20\<close>, never assigned again.\<close>

definition max_history :: nat where
  "max_history = 20"

text \<open>\<open>MotionController.__init__\<close>; \<open>now\<close> is its reading of \<open>time.time()\<close>.\<close>

definition MotionController_init :: "speed_params \<Rightarrow> real \<Rightarrow> motion_controller" where
  "MotionController_init sp now =
     \<lparr>base_forward = get_or (sp_base_forward sp) 0.35,
      forward_comp = get_or (sp_forward_comp sp) 0.8,
      base_turn = get_or (sp_base_turn sp) 0.28,
      turn_comp = get_or (sp_turn_comp sp) 0.45,
      dead_zone_px = get_or (sp_dead_zone_px sp) 25,
      kp_dist = get_or (sp_kp_dist sp) 0.015,
      kp_pitch = get_or (sp_kp_pitch sp) 0.01,
      kp_yaw = get_or (sp_kp_yaw sp) 0.004,
      max_speed = get_or (sp_max_speed sp) 1,
      min_speed = get_or (sp_min_speed sp) (- 1),
      track_far = get_or (sp_track_far_cm sp) 120,
      stop_near = get_or (sp_stop_near_cm sp) 22,
      obstacle_safe_distance = get_or (sp_obstacle_safe_distance sp) 30,
      obstacle_stop_distance = get_or (sp_obstacle_stop_distance sp) 12,
      search_base_speed = get_or (sp_search_base_speed sp) 0.2,
      search_turn_gain = get_or (sp_search_turn_gain sp) 0.3,
      max_rotation_deviation = get_or (sp_max_rotation_deviation sp) 60,
      last_mode = ''idle'',
      cumulative_rotation = 0,
      last_left_speed = 0,
      last_right_speed = 0,
      last_update_time = now,
      target_direction_history = [],
      Halt = 1\<rparr>"

definition clamp :: "motion_controller \<Rightarrow> real \<Rightarrow> real" where
  "clamp mc v = max (min_speed mc) (min (max_speed mc) v)"

text \<open>\<open>_estimate_rotation\<close>, with its local constants 0.5 and 180.0.\<close>

definition estimate_rotation :: "real \<Rightarrow> real \<Rightarrow> real \<Rightarrow> real" where
  "estimate_rotation left_speed right_speed dt =
     (if dt \<le> 0 then 0
      else
        (let max_speed_diff = 0.5;
             max_rotation_rate = 180;
             speed_diff = right_speed - left_speed;
             rotation_rate = (speed_diff / max_speed_diff) * max_rotation_rate
         in rotation_rate * dt))"

text \<open>Python's \<open>x % m\<close> on floats, for a positive \<open>m\<close>: the result has the sign of \<open>m\<close>.\<close>

definition py_mod :: "real \<Rightarrow> real \<Rightarrow> real" where
  "py_mod x m = x - m * of_int \<lfloor>x / m\<rfloor>"

text \<open>\<open>_update_rotation_estimate(left_speed, right_speed)\<close>; \<open>now\<close> is its clock reading.\<close>

definition update_rotation_estimate ::
  "motion_controller \<Rightarrow> real \<Rightarrow> real \<Rightarrow> real \<Rightarrow> real \<times> motion_controller" where
  "update_rotation_estimate mc left_speed right_speed now =
     (let dt = now - last_update_time mc;
          mc1 = (if dt > 0 then
                   (let rotation_change =
                          estimate_rotation (last_left_speed mc) (last_right_speed mc) dt;
                        c = cumulative_rotation mc + rotation_change
                    in mc\<lparr>cumulative_rotation := (if \<bar>c\<bar> > 360 then py_mod c 360 else c)\<rparr>)
                 else mc);
          mc2 = mc1\<lparr>last_left_speed := left_speed, last_right_speed := right_speed,
                     last_update_time := now\<rparr>
      in (cumulative_rotation mc2, mc2))"

text \<open>\<open>_search_toward_target\<close>: the wheel speeds and the mode tag.\<close>

definition search_toward_target :: "motion_controller \<Rightarrow> real \<Rightarrow> real \<Rightarrow> real \<times> real \<times> string" where
  "search_toward_target mc target_direction cumulative_rot =
     (let target_direction_clipped = max (- 100) (min 100 target_direction);
          (left, right, mode) =
            (if \<bar>cumulative_rot\<bar> > max_rotation_deviation mc then
               (if cumulative_rot > 0
                then (- search_base_speed mc * 0.8 * Halt mc,
                      search_base_speed mc * 0.8 * Halt mc, ''search_correct_left'')
                else (search_base_speed mc * 0.8 * Halt mc,
                      - search_base_speed mc * 0.8 * Halt mc, ''search_correct_right''))
             else
               (let direction_factor = target_direction_clipped / 100 in
                if \<bar>direction_factor\<bar> < 0.1
                then (search_base_speed mc * Halt mc, search_base_speed mc * Halt mc,
                      ''search_forward'')
                else
                  (let turn_strength = \<bar>direction_factor\<bar> * search_turn_gain mc in
                   if direction_factor > 0
                   then (search_base_speed mc * Halt mc,
                         search_base_speed mc * (1 - turn_strength) * Halt mc, ''search_right'')
                   else (search_base_speed mc * (1 - turn_strength) * Halt mc,
                         search_base_speed mc * Halt mc, ''search_left''))))
      in (max 0 left, max 0 right, mode))"

text \<open>
  \<open>_smart_avoidance\<close> first sets \<open>self.Halt\<close> from \<open>need_stop\<close> and then chooses the
  wheel speeds and the mode tag; \<open>avoidance_speeds\<close> is that choice, on the controller
  with \<open>Halt\<close> already set.
\<close>

definition avoidance_speeds ::
  "motion_controller \<Rightarrow> obstacle_state \<Rightarrow> real \<Rightarrow> real \<Rightarrow> real \<times> real \<times> string" where
  "avoidance_speeds mc obstacle_state target_direction cumulative_rot =
     (let action = o_action obstacle_state;
          distance = get_or (o_distance_cm obstacle_state) 9999;
          ground_obstacle = (o_ground_obstacle_confirmed obstacle_state = Some True)
      in
      if distance \<le> obstacle_stop_distance mc then
        (if target_direction > 0
         then (clamp mc (- base_turn mc * 0.3 * Halt mc),
                clamp mc (base_turn mc * 0.3 * Halt mc), ''emergency_avoid_left'')
         else (clamp mc (base_turn mc * 0.3 * Halt mc),
                clamp mc (- base_turn mc * 0.3 * Halt mc), ''emergency_avoid_right''))
      else if action = Some ''stop'' then
        (if \<bar>cumulative_rot\<bar> < max_rotation_deviation mc then
           (if target_direction > 10
            then (base_turn mc * 0.15 * Halt mc, - base_turn mc * 0.15 * Halt mc,
                   ''stop_adjust_right'')
            else if target_direction < - 10
            then (- base_turn mc * 0.15 * Halt mc, base_turn mc * 0.15 * Halt mc,
                   ''stop_adjust_left'')
            else (0, 0, ''stop''))
         else (0, 0, ''stop_too_far''))
      else if action = Some ''right'' then
        (let (left, right, mode) =
               (if target_direction < - 20
                then (- base_turn mc * 0.6 * Halt mc, base_turn mc * 0.6 * Halt mc,
                      ''avoid_right_soft'')
                else (- base_turn mc * Halt mc, base_turn mc * Halt mc, ''avoid_right''))
         in if ground_obstacle
            then (let forward_component = search_base_speed mc * 0.2
                  in (clamp mc (left + forward_component),
                       clamp mc (right + forward_component), mode))
            else (left, right, mode))
      else if action = Some ''left'' then
        (let (left, right, mode) =
               (if target_direction > 20
                then (base_turn mc * 0.6 * Halt mc, - base_turn mc * 0.6 * Halt mc,
                      ''avoid_left_soft'')
                else (base_turn mc * Halt mc, - base_turn mc * Halt mc, ''avoid_left''))
         in if ground_obstacle
            then (let forward_component = search_base_speed mc * 0.2
                  in (clamp mc (left + forward_component),
                       clamp mc (right + forward_component), mode))
            else (left, right, mode))
      else if action = Some ''forward'' then
        (let base_speed = base_forward mc * 0.6 in
         if target_direction > 20
         then (base_speed * 1.2 * Halt mc, base_speed * 0.8 * Halt mc, ''forward_lean_right'')
         else if target_direction < - 20
         then (base_speed * 0.8 * Halt mc, base_speed * 1.2 * Halt mc, ''forward_lean_left'')
         else (base_speed * Halt mc, base_speed * Halt mc, ''forward''))
      else search_toward_target mc target_direction cumulative_rot)"

definition smart_avoidance ::
  "motion_controller \<Rightarrow> obstacle_state \<Rightarrow> real \<Rightarrow> real \<Rightarrow> (real \<times> real \<times> string) \<times> motion_controller" where
  "smart_avoidance mc0 obstacle_state target_direction cumulative_rot =
     (let mc = mc0\<lparr>Halt := (if o_need_stop obstacle_state = Some True then 0 else 1)\<rparr>
      in (avoidance_speeds mc obstacle_state target_direction cumulative_rot, mc))"

text \<open>
  \<open>_normal_tracking\<close>. The look-ups \<open>qr_state["distance_cm"]\<close> and \<open>qr_state["offsets"]\<close>
  raise \<open>KeyError\<close> on a missing key, and the distance factor divides by
  \<open>track_far - stop_near\<close>. Its one effect on the controller is on \<open>self.last_mode\<close>:
  the result is the wheel speeds, the mode tag and the value of \<open>self.last_mode\<close>
  after the call.
\<close>

definition normal_tracking ::
  "motion_controller \<Rightarrow> qr_state \<Rightarrow> obstacle_state \<Rightarrow>
   py_error + ((real \<times> real \<times> string) \<times> string)" where
  "normal_tracking mc qr obstacle_state =
     (case (distance_cm qr, offsets qr) of
        (Some dist_cm, Some off) \<Rightarrow>
          (let cxo = cx_off off;
               pitch = pitch_trend off;
               ultrasonic_distance = get_or (o_distance_cm obstacle_state) 9999;
               obstacle_type = get_or (o_obstacle_type obstacle_state) ''unknown''
           in
           if obstacle_type = ''ground_obstacle''
              \<and> ultrasonic_distance < obstacle_safe_distance mc
              \<and> ultrasonic_distance < dist_cm * 0.8
           then
             (let (left, right, mode) =
                    (if cxo > 0
                     then (base_forward mc * 0.7, base_forward mc * 0.9, ''track_avoid_left'')
                     else (base_forward mc * 0.9, base_forward mc * 0.7, ''track_avoid_right''));
                  (left', right') =
                    (if pitch > 5 then (left * 1.1, right * 1.1)
                     else if pitch < - 5 then (left * 0.9, right * 0.9)
                     else (left, right))
              in Inr ((left', right', mode), last_mode mc))
           else if dist_cm \<le> stop_near mc
           then Inr ((0, 0, ''near_stop''), ''target_near_stop'')
           else if track_far mc - stop_near mc = 0 then Inl ZeroDivisionError
           else
             (let distance_factor =
                    min 1 ((dist_cm - stop_near mc) / (track_far mc - stop_near mc));
                  forward0 = base_forward mc + distance_factor * (max_speed mc - base_forward mc);
                  forward1 = (if pitch > 5 then forward0 * 1.1
                              else if pitch < - 5 then forward0 * 0.9 else forward0);
                  forward = min forward1 (max_speed mc);
                  (left_speed, right_speed, mode) =
                    (if \<bar>cxo\<bar> < dead_zone_px mc then (forward, forward, ''forward'')
                     else
                       (let turn_strength = min (\<bar>cxo\<bar> / 100) 1 in
                        if cxo > 0
                        then (forward, forward * (1 - turn_strength * turn_comp mc), ''turn_right'')
                        else (forward * (1 - turn_strength * turn_comp mc), forward, ''turn_left'')))
              in Inr ((max 0 left_speed, max 0 right_speed, mode), mode)))
      | _ \<Rightarrow> Inl KeyError)"

text \<open>The \<open>extra_info\<close> dictionary (the keys \<open>compute\<close> reads) and the returned command.\<close>

record extra_info =
  target_direction :: "real option"
  qr_lost_timer :: "int option"

record motion_command =
  left_speed :: real
  right_speed :: real
  mode :: string
  rotation_estimate :: real

text \<open>
  \<open>MotionController.compute(qr_state, obstacle_state, extra_info)\<close>; \<open>now\<close> is the one
  clock reading of the call. A call that raises is the error alone. The log line of the
  obstacle branch reads \<open>obstacle_state['distance_cm']\<close>, which raises on a missing key.
\<close>

definition compute ::
  "motion_controller \<Rightarrow> qr_state \<Rightarrow> obstacle_state \<Rightarrow> extra_info option \<Rightarrow> real \<Rightarrow>
   py_error + (motion_command \<times> motion_controller)" where
  "compute mc0 qr obstacle_state extra now =
     (let target_dir = (case extra of None \<Rightarrow> 0 | Some e \<Rightarrow> get_or (target_direction e) 0);
          (cumulative_rot, mc1) =
             update_rotation_estimate mc0 (last_left_speed mc0) (last_right_speed mc0) now;
          r = (if lost qr = Some False then
                 (case normal_tracking mc1 qr obstacle_state of
                    Inl e \<Rightarrow> Inl e
                  | Inr (lrm, lm) \<Rightarrow>
                      (let h = target_direction_history mc1 @ [target_dir];
                           h' = (if length h > max_history then tl h else h)
                       in Inr (lrm, mc1\<lparr>last_mode := lm, target_direction_history := h'\<rparr>)))
               else if o_obstacle_near obstacle_state = Some True then
                 (case o_distance_cm obstacle_state of
                    None \<Rightarrow> Inl KeyError
                  | Some d \<Rightarrow> Inr (smart_avoidance mc1 obstacle_state target_dir cumulative_rot))
               else Inr (search_toward_target mc1 target_dir cumulative_rot, mc1))
      in case r of
           Inl e \<Rightarrow> Inl e
         | Inr ((left, right, m), mc3) \<Rightarrow>
             Inr (\<lparr>left_speed = left, right_speed = right, mode = m,
                   rotation_estimate = cumulative_rot\<rparr>,
                  mc3\<lparr>last_left_speed := left * 0.7, last_right_speed := right,
                      last_mode := m\<rparr>))"

text \<open>Example inputs: a lost marker, no obstacle, an obstacle with the action \<open>right\<close>.\<close>

definition no_obstacle :: obstacle_state where
  "no_obstacle = \<lparr>o_obstacle_near = Some False, o_need_stop = Some False,
     o_avoid_mode = Some False, o_phase = None, o_action = None, o_distance_cm = Some 100,
     o_safe_distance = Some 30, o_obstacle_type = None, o_ground_obstacle_confirmed = None\<rparr>"

definition turning_right :: obstacle_state where
  "turning_right = \<lparr>o_obstacle_near = Some True, o_need_stop = Some False,
     o_avoid_mode = Some True, o_phase = Some TURN_RIGHT, o_action = Some ''right'',
     o_distance_cm = Some 25, o_safe_distance = Some 30, o_obstacle_type = None,
     o_ground_obstacle_confirmed = None\<rparr>"

definition default_params :: speed_params where
  "default_params = \<lparr>sp_base_forward = None, sp_forward_comp = None, sp_base_turn = None,
     sp_turn_comp = None, sp_dead_zone_px = None, sp_kp_dist = None, sp_kp_pitch = None,
     sp_kp_yaw = None, sp_max_speed = None, sp_min_speed = None, sp_track_far_cm = None,
     sp_stop_near_cm = None, sp_obstacle_safe_distance = None,
     sp_obstacle_stop_distance = None, sp_search_base_speed = None,
     sp_search_turn_gain = None, sp_max_rotation_deviation = None\<rparr>"

section \<open>Baseline motion controller (\<open>src/motion_controller.py\<close>)\<close>

text \<open>The attributes of the baseline \<open>MotionController\<close> and the dictionary it returns.\<close>

record base_controller =
  b_base_forward :: real
  b_forward_comp :: real
  b_base_turn :: real
  b_turn_comp :: real
  b_dead_zone_px :: real
  b_kp_dist :: real
  b_kp_pitch :: real
  b_kp_yaw :: real
  b_last_slope :: string
  b_on_slope :: bool
  b_last_mode :: string
  b_max_speed :: real
  b_min_speed :: real
  b_track_far :: real
  b_stop_near :: real

record track_command =
  t_left_speed :: real
  t_right_speed :: real
  t_mode :: string

definition b_clamp :: "base_controller \<Rightarrow> real \<Rightarrow> real" where
  "b_clamp bc v = max (b_min_speed bc) (min (b_max_speed bc) v)"

definition vector_formula :: "base_controller \<Rightarrow> real \<Rightarrow> real \<Rightarrow> real \<Rightarrow> real \<Rightarrow> real \<Rightarrow> real" where
  "vector_formula bc stop_flag turn_flag forward_base turn_base turn_dir =
     stop_flag * turn_flag * (b_forward_comp bc * forward_base)
     + stop_flag * (1 - turn_flag) * (turn_base + turn_dir * b_turn_comp bc * turn_base)"

text \<open>
  The keys of the obstacle dictionary that the baseline controller reads, with subscripts
  (a missing key raises \<open>KeyError\<close>): \<open>None\<close> is a missing key; for \<open>action\<close>,
  \<open>Some None\<close> is the Python value \<open>None\<close> that the baseline sensor writes outside a
  maneuver.
\<close>

record base_obstacle_state =
  bo_avoid_mode :: "bool option"
  bo_action :: "string option option"

text \<open>\<open>_avoid_motion(obst)\<close>; \<open>obst["action"]\<close> raises on a missing key.\<close>

definition avoid_motion ::
  "base_controller \<Rightarrow> base_obstacle_state \<Rightarrow> py_error + (real \<times> real \<times> string)" where
  "avoid_motion bc obst =
     (case bo_action obst of
        None \<Rightarrow> Inl KeyError
      | Some action \<Rightarrow>
          if action = Some ''stop'' then Inr (0, 0, ''avoid_stop'')
          else if action = Some ''right''
          then Inr (- b_base_turn bc, b_base_turn bc, ''avoid_right'')
          else if action = Some ''left''
          then Inr (b_base_turn bc, - b_base_turn bc, ''avoid_left'')
          else if action = Some ''forward''
          then (let v = b_base_forward bc * 0.6 in Inr (v, v, ''avoid_forward''))
          else Inr (0, 0, ''avoid_idle''))"

definition slope_adjust :: "base_controller \<Rightarrow> real \<Rightarrow> real \<Rightarrow> real \<times> base_controller" where
  "slope_adjust bc pitch_tr dist_cm =
     (if \<bar>pitch_tr\<bar> < 2 then (0, bc\<lparr>b_on_slope := False, b_last_slope := ''flat''\<rparr>)
      else if pitch_tr > 0 then (0.05, bc\<lparr>b_last_slope := ''up'', b_on_slope := True\<rparr>)
      else (- 0.05, bc\<lparr>b_last_slope := ''down'', b_on_slope := True\<rparr>))"

text \<open>\<open>math.copysign(1.0, x)\<close> (the reals have no negative zero).\<close>

definition copysign1 :: "real \<Rightarrow> real" where
  "copysign1 x = (if x < 0 then - 1 else 1)"

text \<open>
  The baseline \<open>compute(qr_state, obstacle_state)\<close>. \<open>obstacle_state["avoid_mode"]\<close> raises
  on a missing key, as do \<open>qr_state["distance_cm"]\<close> and \<open>qr_state["offsets"]\<close>.
\<close>

definition base_compute ::
  "base_controller \<Rightarrow> qr_state \<Rightarrow> base_obstacle_state \<Rightarrow>
   py_error + (track_command \<times> base_controller)" where
  "base_compute bc qr obstacle_state =
     (case bo_avoid_mode obstacle_state of
        None \<Rightarrow> Inl KeyError
      | Some am \<Rightarrow>
          if am then
            (case avoid_motion bc obstacle_state of
               Inl e \<Rightarrow> Inl e
             | Inr (l, r, m) \<Rightarrow>
                 Inr (\<lparr>t_left_speed = l, t_right_speed = r, t_mode = m\<rparr>, bc\<lparr>b_last_mode := m\<rparr>))
          else if lost qr \<noteq> Some False then
            Inr (\<lparr>t_left_speed = 0, t_right_speed = 0, t_mode = ''lost_wait''\<rparr>,
                 bc\<lparr>b_last_mode := ''lost_keep''\<rparr>)
          else
            (case (distance_cm qr, offsets qr) of
               (Some dist_cm, Some off) \<Rightarrow>
                 (let cxo = cx_off off; pitch = pitch_trend off; yaw = yaw_trend off in
                  if dist_cm \<le> b_stop_near bc then
                    Inr (\<lparr>t_left_speed = 0, t_right_speed = 0, t_mode = ''near_stop''\<rparr>,
                         bc\<lparr>b_last_mode := ''target_near_stop''\<rparr>)
                  else
                    (case slope_adjust bc pitch dist_cm of
                       (slope_adj, bc1) \<Rightarrow>
                         (let forward = b_clamp bc1 (b_base_forward bc1
                                  + b_kp_dist bc1 * (dist_cm - b_stop_near bc1)
                                  + b_kp_pitch bc1 * slope_adj);
                              (turn_dir, turn_flag) =
                                 (if \<bar>cxo\<bar> < b_dead_zone_px bc1 then (0, 0)
                                  else (- copysign1 cxo, 1));
                              turn = b_clamp bc1 (b_kp_yaw bc1 * yaw);
                              stop_flag = 1;
                              left = vector_formula bc1 stop_flag turn_flag forward
                                       (b_base_turn bc1) turn_dir;
                              right = vector_formula bc1 stop_flag (1 - turn_flag) forward
                                       (b_base_turn bc1) (- turn_dir)
                          in Inr (\<lparr>t_left_speed = b_clamp bc1 left,
                                   t_right_speed = b_clamp bc1 right,
                                   t_mode = ''track_follow''\<rparr>,
                                  bc1\<lparr>b_last_mode := ''track''\<rparr>))))
             | _ \<Rightarrow> Inl KeyError))"

text \<open>The baseline controller with the default parameters of its \<open>__init__\<close>.\<close>

definition base0 :: base_controller where
  "base0 = \<lparr>b_base_forward = 0.35, b_forward_comp = 0.8, b_base_turn = 0.28,
     b_turn_comp = 0.45, b_dead_zone_px = 25, b_kp_dist = 0.015, b_kp_pitch = 0.01,
     b_kp_yaw = 0.004, b_last_slope = ''flat'', b_on_slope = False, b_last_mode = ''idle'',
     b_max_speed = 1, b_min_speed = - 1, b_track_far = 120, b_stop_near = 22\<rparr>"

text \<open>A marker seen at 50 cm, 100 pixels to the right.\<close>

definition seen_right :: qr_state where
  "seen_right = \<lparr>lost = Some False, data = Some ''0001'', distance_cm = Some 50,
     offsets = Some \<lparr>cx_off = 100, cy_off = 0, yaw_trend = 0, pitch_trend = 0\<rparr>,
     points = None\<rparr>"



definition base_no_action :: base_obstacle_state where
  "base_no_action = \<lparr>bo_avoid_mode = Some True, bo_action = None\<rparr>"

section \<open>Mode orchestrator loops (\<open>A/modified3.py\<close>)\<close>

text \<open>
  The globals the search and avoidance loops write, apart from the motor commands (which
  do not enter any test of the loops): the control mode, the detection flag, and the
  number of auto-mode threads started by \<open>restart_auto_mode\<close>. The loops are modelled as
  run by their own thread; writes of other threads to \<open>control_mode\<close> are not modelled.
\<close>

record rover =
  control_mode :: string
  target_qr_detected :: bool
  auto_threads_started :: nat

definition restart_auto_mode :: "rover \<Rightarrow> rover" where
  "restart_auto_mode w =
     w\<lparr>control_mode := ''auto'', auto_threads_started := Suc (auto_threads_started w)\<rparr>"

text \<open>
  What one pass of the search loop meets: after \<open>qr_search_behavior()\<close> the scan
  \<open>detect_qr_code()\<close> finds the marker, or does not, or one of these two calls raises
  (the \<open>except\<close> branch stops the motors and the loop goes on).
\<close>

datatype attempt = Found | NotFound | Raised

definition max_search_attempts :: nat where
  "max_search_attempts = 5"

text \<open>
  The \<open>while\<close> loop of \<open>search_control_loop\<close>: \<open>ev k\<close> is what the pass with
  \<open>search_attempt = k\<close> at its start meets. The result says whether the function
  returned from inside the loop, and gives the counter and the globals.
\<close>

function search_attempts :: "(nat \<Rightarrow> attempt) \<Rightarrow> nat \<Rightarrow> rover \<Rightarrow> bool \<times> nat \<times> rover" where
  "search_attempts ev search_attempt w =
     (if control_mode w = ''search'' \<and> search_attempt < max_search_attempts then
        (case ev search_attempt of
           Found \<Rightarrow>
             (True, Suc search_attempt,
              restart_auto_mode (w\<lparr>target_qr_detected := True, control_mode := ''auto''\<rparr>))
         | NotFound \<Rightarrow> search_attempts ev (Suc search_attempt) w
         | Raised \<Rightarrow> search_attempts ev (Suc search_attempt) w)
      else (False, search_attempt, w))"
  by pat_completeness auto
termination
  by (relation "measure (\<lambda>(ev, n, w). max_search_attempts - n)") auto

text \<open>
  \<open>search_control_loop\<close>: after the loop, an exhausted counter only stops the motors;
  the result is the number of attempts made and the globals.
\<close>

definition search_control_loop :: "(nat \<Rightarrow> attempt) \<Rightarrow> rover \<Rightarrow> nat \<times> rover" where
  "search_control_loop ev w =
     (case search_attempts ev 0 w of
        (returned, search_attempt, w') \<Rightarrow> (search_attempt, w'))"

text \<open>
  The avoidance loop: a pass measures a distance (\<open>None\<close> is the \<open>inf\<close> of a timeout),
  or \<open>get_distance()\<close> or \<open>avoidance_behavior\<close> raises. \<open>SAFE_DISTANCE\<close> is 30.0.
\<close>

datatype avoid_attempt = Measured "real option" | AvoidRaised

definition SAFE_DISTANCE :: real where
  "SAFE_DISTANCE = 30"

definition max_avoidance_attempts :: nat where
  "max_avoidance_attempts = 5"

function avoidance_attempts ::
  "(nat \<Rightarrow> avoid_attempt) \<Rightarrow> nat \<Rightarrow> rover \<Rightarrow> bool \<times> nat \<times> rover" where
  "avoidance_attempts ev avoidance_attempt w =
     (if control_mode w = ''avoidance'' \<and> avoidance_attempt < max_avoidance_attempts then
        (case ev avoidance_attempt of
           Measured distance \<Rightarrow>
             if (case distance of None \<Rightarrow> True | Some d \<Rightarrow> d > SAFE_DISTANCE * 1.5)
             then (True, Suc avoidance_attempt,
                   restart_auto_mode (w\<lparr>control_mode := ''auto''\<rparr>))
             else avoidance_attempts ev (Suc avoidance_attempt) w
         | AvoidRaised \<Rightarrow> avoidance_attempts ev (Suc avoidance_attempt) w)
      else (False, avoidance_attempt, w))"
  by pat_completeness auto
termination
  by (relation "measure (\<lambda>(ev, n, w). max_avoidance_attempts - n)") auto

text \<open>
  \<open>avoidance_control_loop\<close>: after the loop, an exhausted counter sets the mode to auto
  and restarts the auto thread.
\<close>

definition avoidance_control_loop :: "(nat \<Rightarrow> avoid_attempt) \<Rightarrow> rover \<Rightarrow> nat \<times> rover" where
  "avoidance_control_loop ev w =
     (case avoidance_attempts ev 0 w of
        (returned, avoidance_attempt, w') \<Rightarrow>
          if returned then (avoidance_attempt, w')
          else if avoidance_attempt \<ge> max_avoidance_attempts
          then (avoidance_attempt, restart_auto_mode (w'\<lparr>control_mode := ''auto''\<rparr>))
          else (avoidance_attempt, w'))"

text \<open>The globals when a loop is entered from the given mode.\<close>

definition entering :: "string \<Rightarrow> rover" where
  "entering m = \<lparr>control_mode = m, target_qr_detected = False, auto_threads_started = 0\<rparr>"

text \<open>Controllers and inputs used in the examples of the motion synthesizer.\<close>

definition mc0 :: motion_controller where
  "mc0 = MotionController_init default_params 0"

definition mc1 :: motion_controller where
  "mc1 = mc0\<lparr>last_mode := ''search_forward'', last_left_speed := 0.14,
     last_right_speed := 0.2, last_update_time := 1\<rparr>"

definition slow_params :: speed_params where
  "slow_params = default_params\<lparr>sp_max_speed := Some 0.2\<rparr>"

definition slow_mc :: motion_controller where
  "slow_mc = MotionController_init slow_params 0"

section \<open>Properties of the classifier\<close>

lemma norm2_nonneg: "0 \<le> norm2 p"
  by (simp add: norm2_def)

lemma norm2_horizontal: "norm2 (a, 0) = \<bar>a\<bar>"
  by (simp add: norm2_def)

lemma pixel_size_nonneg: "0 \<le> pixel_size pts"
  by (cases pts) (simp add: pixel_size_def norm2_nonneg)

text \<open>
  C5, as the classifier is written. The claim's general rule holds for readings the code
  accepts as valid (a positive marker distance and an ultrasonic distance of at most 300);
  its particular case does not: 40 / 45 is about 0.89, inside [0.8, 1.2], so the pair
  (ultrasonic 40, marker 45) is classified as a wall-mounted marker, not as a ground
  obstacle.
\<close>

theorem analyze_obstacle_type_40_45_not_ground:
  "analyze_obstacle_type (Some 45) 40 \<noteq> Inr ''ground_obstacle''"
  by (simp add: analyze_obstacle_type_def)

text \<open>
  C5 (amended): for every marker distance \<open>d_qr > 0\<close> and ultrasonic distance
  \<open>d_us \<le> 300\<close> the classifier returns wall_qr when \<open>d_us / d_qr\<close> is in [0.8, 1.2],
  ground_obstacle when the ratio is below 0.8 and error_or_tilted when it is above 1.2;
  in particular \<open>d_us = 40\<close>, \<open>d_qr = 45\<close> is classified wall_qr.
\<close>

theorem analyze_obstacle_type_by_ratio:
  assumes "0 < d_qr" and "d_us \<le> 300"
  shows "analyze_obstacle_type (Some d_qr) d_us =
           (if 0.8 \<le> d_us / d_qr \<and> d_us / d_qr \<le> 1.2 then Inr ''wall_qr''
            else if d_us / d_qr < 0.8 then Inr ''ground_obstacle''
            else Inr ''error_or_tilted'')
         \<and> analyze_obstacle_type (Some 45) 40 = Inr ''wall_qr''"
  using assms by (simp add: analyze_obstacle_type_def Let_def)

theorem analyze_obstacle_type_by_ratio_witness:
  "analyze_obstacle_type (Some 50) 30 = Inr ''ground_obstacle''
   \<and> analyze_obstacle_type (Some 45) 40 = Inr ''wall_qr''"
  using analyze_obstacle_type_by_ratio [of 50 30] by simp

section \<open>Properties of the target localizer\<close>

lemma pixel_size_square: "pixel_size (square a) = \<bar>a\<bar>"
  by (simp add: square_def pixel_size_def psub_def norm2_horizontal)

lemma sqrt_25: "sqrt 25 = 5"
  using real_sqrt_abs2 [of 5] by simp

lemma sqrt_100: "sqrt 100 = 10"
  using real_sqrt_abs2 [of 10] by simp

lemma sqrt_22500: "sqrt 22500 = 150"
  using real_sqrt_abs2 [of 150] by simp

lemma pixel_size_oblique_small: "pixel_size oblique_small = 15 / 2"
  by (simp add: pixel_size_def oblique_small_def psub_def norm2_def sqrt_25 sqrt_100)

lemma pixel_size_oblique_large: "pixel_size oblique_large = 150"
  by (simp add: pixel_size_def oblique_large_def psub_def norm2_def sqrt_22500)

lemma estimate_distance_survivor:
  "\<not> pixel_size pts < 20 \<Longrightarrow> estimate_distance cfg pts = Some (dist_of cfg pts)"
  by (simp add: estimate_distance_def dist_of_def)

lemma detect_loop_skip:
  "\<not> survives (d, pts) \<Longrightarrow> detect_loop cfg ((d, pts) # rest) (b, bd) = detect_loop cfg rest (b, bd)"
  by (auto simp: survives_def)

lemma detect_loop_take:
  "survives (d, pts) \<Longrightarrow> dist_of cfg pts < bd \<Longrightarrow> d = Some s \<Longrightarrow>
   detect_loop cfg ((d, pts) # rest) (b, bd) = detect_loop cfg rest (Some (s, pts, dist_of cfg pts), dist_of cfg pts)"
  by (simp add: survives_def estimate_distance_survivor)

lemma detect_loop_keep:
  "survives (d, pts) \<Longrightarrow> \<not> dist_of cfg pts < bd \<Longrightarrow>
   detect_loop cfg ((d, pts) # rest) (b, bd) = detect_loop cfg rest (b, bd)"
  by (cases d) (simp_all add: survives_def estimate_distance_survivor)

lemma survives_payload: "survives (d, pts) \<Longrightarrow> \<exists>s. d = Some s \<and> s \<noteq> []"
  by (cases d) (simp_all add: survives_def not_data_def)

lemma detect_loop_lower:
  "detect_loop cfg cs (b, bd) = (b', bd') \<Longrightarrow>
   bd' \<le> bd \<and> (\<forall>c\<in>set cs. survives c \<longrightarrow> bd' \<le> dist_of cfg (snd c))"
proof (induction cs arbitrary: b bd)
  case Nil
  then show ?case by simp
next
  case (Cons c cs)
  obtain d pts where c: "c = (d, pts)" by (cases c)
  show ?case
  proof (cases "survives (d, pts)")
    case False
    from Cons.prems c have "detect_loop cfg cs (b, bd) = (b', bd')"
      by (simp add: detect_loop_skip [OF False] del: detect_loop.simps)
    from Cons.IH [OF this] False c show ?thesis by auto
  next
    case True
    then obtain s where s: "d = Some s" using survives_payload by blast
    show ?thesis
    proof (cases "dist_of cfg pts < bd")
      case lt: True
      from Cons.prems c have "detect_loop cfg cs (Some (s, pts, dist_of cfg pts), dist_of cfg pts) = (b', bd')"
        by (simp add: detect_loop_take [OF True lt s] del: detect_loop.simps)
      from Cons.IH [OF this] lt c show ?thesis by auto
    next
      case ge: False
      from Cons.prems c have "detect_loop cfg cs (b, bd) = (b', bd')"
        by (simp add: detect_loop_keep [OF True ge] del: detect_loop.simps)
      from Cons.IH [OF this] ge c show ?thesis by auto
    qed
  qed
qed

lemma detect_loop_source:
  "detect_loop cfg cs (b, bd) = (b', bd') \<Longrightarrow>
   (b' = b \<and> bd' = bd) \<or>
   (\<exists>c\<in>set cs. survives c \<and> bd' < bd \<and> bd' = dist_of cfg (snd c)
       \<and> (\<exists>s. fst c = Some s \<and> s \<noteq> [] \<and> b' = Some (s, snd c, dist_of cfg (snd c))))"
proof (induction cs arbitrary: b bd)
  case Nil
  then show ?case by simp
next
  case (Cons c cs)
  obtain d pts where c: "c = (d, pts)" by (cases c)
  show ?case
  proof (cases "survives (d, pts)")
    case False
    from Cons.prems c have "detect_loop cfg cs (b, bd) = (b', bd')"
      by (simp add: detect_loop_skip [OF False] del: detect_loop.simps)
    from Cons.IH [OF this] False c show ?thesis by auto
  next
    case True
    then obtain s where s: "d = Some s" "s \<noteq> []" using survives_payload by blast
    show ?thesis
    proof (cases "dist_of cfg pts < bd")
      case lt: True
      from Cons.prems c have "detect_loop cfg cs (Some (s, pts, dist_of cfg pts), dist_of cfg pts) = (b', bd')"
        by (simp add: detect_loop_take [OF True lt s(1)] del: detect_loop.simps)
      from Cons.IH [OF this] lt c s True show ?thesis by fastforce
    next
      case ge: False
      from Cons.prems c have "detect_loop cfg cs (b, bd) = (b', bd')"
        by (simp add: detect_loop_keep [OF True ge] del: detect_loop.simps)
      from Cons.IH [OF this] ge c show ?thesis by auto
    qed
  qed
qed


lemma detect_cases:
  "detect cfg (retval, data_list, Some pl) =
     (if \<not> retval \<or> data_list = [] then lost_state
      else case fst (detect_loop cfg (zip data_list pl) (None, 1000000000)) of
             None \<Rightarrow> lost_state
           | Some (d, pts, dist_cm) \<Rightarrow>
               \<lparr>lost = Some False, data = Some d, distance_cm = Some dist_cm,
                offsets = Some (compute_offsets cfg pts), points = Some pts\<rparr>)"
  by (simp add: detect_def)

lemma detect_loop_from_none:
  assumes "detect_loop cfg cs (None, 1000000000) = (b', bd')"
  shows "(b' = None \<longleftrightarrow> (\<forall>c\<in>set cs. survives c \<longrightarrow> 1000000000 \<le> dist_of cfg (snd c)))
       \<and> (\<forall>t. b' = Some t \<longrightarrow>
            (\<exists>c\<in>set cs. survives c \<and> (\<exists>s. fst c = Some s \<and> s \<noteq> [] \<and>
                 t = (s, snd c, dist_of cfg (snd c)))
               \<and> dist_of cfg (snd c) < 1000000000
               \<and> (\<forall>c'\<in>set cs. survives c' \<longrightarrow> dist_of cfg (snd c) \<le> dist_of cfg (snd c'))))"
proof -
  note low = detect_loop_lower [OF assms]
  note src = detect_loop_source [OF assms]
  show ?thesis
  proof (cases b')
    case None
    with src have "bd' = 1000000000" by auto
    with low None show ?thesis by auto
  next
    case (Some t)
    with src obtain c s where c: "c \<in> set cs" "survives c" "bd' < 1000000000"
      "bd' = dist_of cfg (snd c)" "fst c = Some s" "s \<noteq> []" "t = (s, snd c, dist_of cfg (snd c))"
      by auto
    have "\<not> (\<forall>c\<in>set cs. survives c \<longrightarrow> 1000000000 \<le> dist_of cfg (snd c))"
      using c by force
    moreover have "\<forall>c'\<in>set cs. survives c' \<longrightarrow> dist_of cfg (snd c) \<le> dist_of cfg (snd c')"
      using low c(4) by simp
    ultimately show ?thesis using Some c by blast
  qed
qed

text \<open>
  C7 (amended): the nested \<open>QRDetector.detect\<close> discards the candidates whose payload is
  null or empty and those whose pixel edge length is below 20 px; the result is lost
  exactly when the decoder reports nothing or no survivor has an estimated distance
  below the initial \<open>best_dist\<close> of 1e9; otherwise the target is a survivor whose
  estimated distance is the smallest among the survivors.
\<close>

theorem detect_selects_closest_survivor:
  "detect cfg (retval, data_list, None) = lost_state
   \<and> (lost (detect cfg (retval, data_list, Some pts_list)) = Some True \<longleftrightarrow>
        \<not> retval \<or> (\<forall>c\<in>set (zip data_list pts_list). survives c \<longrightarrow> 1000000000 \<le> dist_of cfg (snd c)))
   \<and> (lost (detect cfg (retval, data_list, Some pts_list)) \<noteq> Some True \<longrightarrow>
        (\<exists>c\<in>set (zip data_list pts_list). survives c
           \<and> data (detect cfg (retval, data_list, Some pts_list)) = fst c
           \<and> points (detect cfg (retval, data_list, Some pts_list)) = Some (snd c)
           \<and> distance_cm (detect cfg (retval, data_list, Some pts_list)) = Some (dist_of cfg (snd c))
           \<and> dist_of cfg (snd c) < 1000000000
           \<and> (\<forall>c'\<in>set (zip data_list pts_list). survives c' \<longrightarrow>
                 dist_of cfg (snd c) \<le> dist_of cfg (snd c'))))"
proof -
  let ?cs = "zip data_list pts_list"
  let ?r = "detect cfg (retval, data_list, Some pts_list)"
  obtain b' bd' where loop: "detect_loop cfg ?cs (None, 1000000000) = (b', bd')"
    by (cases "detect_loop cfg ?cs (None, 1000000000)")
  note char = detect_loop_from_none [OF loop]
  have none: "detect cfg (retval, data_list, None) = lost_state"
    by (simp add: detect_def)
  show ?thesis
  proof (cases "\<not> retval \<or> data_list = []")
    case True
    then have "?r = lost_state" by (simp add: detect_cases)
    moreover from True have "\<not> retval \<or> ?cs = []" by auto
    ultimately show ?thesis using none by (auto simp: lost_state_def)
  next
    case False
    show ?thesis
    proof (cases b')
      case None
      then have "?r = lost_state" using False loop by (simp add: detect_cases)
      with None char none show ?thesis by (simp add: lost_state_def)
    next
      case (Some t)
      obtain s pts dc where t: "t = (s, pts, dc)" by (cases t)
      have r: "?r = \<lparr>lost = Some False, data = Some s, distance_cm = Some dc,
                offsets = Some (compute_offsets cfg pts), points = Some pts\<rparr>"
        using False loop Some t by (simp add: detect_cases)
      from char Some obtain c where c: "c \<in> set ?cs" "survives c"
        "\<exists>s. fst c = Some s \<and> s \<noteq> [] \<and> t = (s, snd c, dist_of cfg (snd c))"
        "dist_of cfg (snd c) < 1000000000"
        "\<forall>c'\<in>set ?cs. survives c' \<longrightarrow> dist_of cfg (snd c) \<le> dist_of cfg (snd c')"
        by blast
      have not_all: "\<not> (\<forall>c\<in>set ?cs. survives c \<longrightarrow> 1000000000 \<le> dist_of cfg (snd c))"
        using char Some by simp
      have "lost ?r = Some False" using r by simp
      moreover have "data ?r = fst c" "points ?r = Some (snd c)"
        "distance_cm ?r = Some (dist_of cfg (snd c))"
        using r c(3) t by auto
      ultimately show ?thesis using none False not_all c by auto
    qed
  qed
qed

lemma dist_of_cam0_square: "dist_of cam0 (square a) = 3000 / \<bar>a\<bar>"
  by (simp add: dist_of_def cam0_def pixel_size_square)

lemma survives_square: "survives (d, square a) \<longleftrightarrow> \<not> not_data d \<and> 20 \<le> \<bar>a\<bar>"
  by (auto simp: survives_def pixel_size_square)

lemma detect_frame3:
  "detect cam0 frame3 = \<lparr>lost = Some False, data = Some ''C'', distance_cm = Some 30,
      offsets = Some (compute_offsets cam0 (square 100)), points = Some (square 100)\<rparr>"
  by (simp add: frame3_def detect_def pixel_size_square estimate_distance_def cam0_def not_data_def)

theorem detect_selects_closest_survivor_witness:
  "lost (detect cam0 frame3) = Some False
   \<and> data (detect cam0 frame3) = Some ''C''
   \<and> distance_cm (detect cam0 frame3) = Some 30
   \<and> (\<exists>c\<in>set (zip [Some ''A'', Some ''B'', Some ''C''] [square 10, square 50, square 100]).
        survives c \<and> data (detect cam0 frame3) = fst c
         \<and> (\<forall>c'\<in>set (zip [Some ''A'', Some ''B'', Some ''C''] [square 10, square 50, square 100]).
               survives c' \<longrightarrow> dist_of cam0 (snd c) \<le> dist_of cam0 (snd c')))"
  using detect_selects_closest_survivor [of cam0 True "[Some ''A'', Some ''B'', Some ''C'']"
      "[square 10, square 50, square 100]"]
  by (simp add: detect_frame3 [unfolded frame3_def] frame3_def dist_of_cam0_square survives_square not_data_def)

text \<open>
  C7, as stated, fails: in a frame with a 100-pixel marker that has an empty payload and
  a 50-pixel marker with payload B, the first passes the 20-pixel filter and is the
  closer one (30 cm against 60 cm), yet \<open>detect\<close> returns the second.
\<close>

theorem detect_empty_payload_closer_not_selected:
  "\<not> pixel_size (square 100) < 20
   \<and> estimate_distance cam0 (square 100) = Some 30
   \<and> estimate_distance cam0 (square 50) = Some 60
   \<and> distance_cm (detect cam0 (True, [Some [], Some ''B''], Some [square 100, square 50])) = Some 60
   \<and> points (detect cam0 (True, [Some [], Some ''B''], Some [square 100, square 50])) = Some (square 50)"
  by (simp add: detect_def pixel_size_square estimate_distance_def cam0_def not_data_def)





text \<open>
  C6: for every ordered four-corner point set \<open>(x1, y1), (x2, y2), (x3, y3), (x4, y4)\<close>
  the pixel edge length that \<open>_estimate_distance\<close> uses is the mean of the Euclidean
  norms of \<open>p2 - p1\<close> and \<open>p3 - p4\<close>; the function returns the cannot-estimate result
  exactly when that length is below 1e-5, and otherwise returns
  \<open>qr_size_cm * fx\<close> divided by it; for positive \<open>qr_size_cm\<close> and \<open>fx\<close> that value is
  strictly positive and strictly decreasing in the pixel edge length.
\<close>

theorem estimate_distance_correct:
  "pixel_size ((x1, y1), (x2, y2), (x3, y3), (x4, y4))
     = (sqrt ((x2 - x1) * (x2 - x1) + (y2 - y1) * (y2 - y1))
        + sqrt ((x3 - x4) * (x3 - x4) + (y3 - y4) * (y3 - y4))) / 2
   \<and> (estimate_distance cfg ((x1, y1), (x2, y2), (x3, y3), (x4, y4)) = None \<longleftrightarrow>
        (sqrt ((x2 - x1) * (x2 - x1) + (y2 - y1) * (y2 - y1))
         + sqrt ((x3 - x4) * (x3 - x4) + (y3 - y4) * (y3 - y4))) / 2 < 1 / 100000)
   \<and> (\<not> (sqrt ((x2 - x1) * (x2 - x1) + (y2 - y1) * (y2 - y1))
          + sqrt ((x3 - x4) * (x3 - x4) + (y3 - y4) * (y3 - y4))) / 2 < 1 / 100000 \<longrightarrow>
        estimate_distance cfg ((x1, y1), (x2, y2), (x3, y3), (x4, y4))
          = Some ((qr_size_cm cfg * fx cfg)
                  / ((sqrt ((x2 - x1) * (x2 - x1) + (y2 - y1) * (y2 - y1))
                      + sqrt ((x3 - x4) * (x3 - x4) + (y3 - y4) * (y3 - y4))) / 2)))
   \<and> (estimate_distance cfg pts = None \<longleftrightarrow> pixel_size pts < 1 / 100000)
   \<and> (\<not> pixel_size pts < 1 / 100000 \<longrightarrow>
        estimate_distance cfg pts = Some ((qr_size_cm cfg * fx cfg) / pixel_size pts))
   \<and> (0 < qr_size_cm cfg \<and> 0 < fx cfg \<and> 1 / 100000 \<le> pixel_size pts
        \<and> pixel_size pts < pixel_size pts' \<longrightarrow>
        (\<exists>d d'. estimate_distance cfg pts = Some d \<and> estimate_distance cfg pts' = Some d'
                \<and> 0 < d' \<and> d' < d))"
proof -
  let ?q = "((x1, y1), (x2, y2), (x3, y3), (x4, y4))"
  let ?e = "(sqrt ((x2 - x1) * (x2 - x1) + (y2 - y1) * (y2 - y1))
        + sqrt ((x3 - x4) * (x3 - x4) + (y3 - y4) * (y3 - y4))) / 2"
  have edge: "pixel_size ?q = ?e"
    by (simp add: pixel_size_def psub_def norm2_def)
  have fails_q: "estimate_distance cfg ?q = None \<longleftrightarrow> ?e < 1 / 100000"
    unfolding edge [symmetric] by (simp add: estimate_distance_def)
  have formula_q: "\<not> ?e < 1 / 100000 \<longrightarrow>
        estimate_distance cfg ?q = Some ((qr_size_cm cfg * fx cfg) / ?e)"
    unfolding edge [symmetric] by (simp add: estimate_distance_def)
  have fails: "estimate_distance cfg pts = None \<longleftrightarrow> pixel_size pts < 1 / 100000"
    by (simp add: estimate_distance_def)
  have formula: "\<not> pixel_size pts < 1 / 100000 \<longrightarrow>
        estimate_distance cfg pts = Some ((qr_size_cm cfg * fx cfg) / pixel_size pts)"
    by (simp add: estimate_distance_def)
  have mono: "\<exists>d d'. estimate_distance cfg pts = Some d \<and> estimate_distance cfg pts' = Some d'
                \<and> 0 < d' \<and> d' < d"
    if h: "0 < qr_size_cm cfg" "0 < fx cfg" "1 / 100000 \<le> pixel_size pts"
          "pixel_size pts < pixel_size pts'"
  proof -
    let ?k = "qr_size_cm cfg * fx cfg"
    have k: "0 < ?k" using h by simp
    have p: "0 < pixel_size pts" using h(3) by linarith
    have p': "0 < pixel_size pts'" using p h(4) by linarith
    have "?k / pixel_size pts' < ?k / pixel_size pts"
      using k p h(4) by (simp add: divide_strict_left_mono)
    moreover have "0 < ?k / pixel_size pts'" using k p' by simp
    moreover have "estimate_distance cfg pts = Some (?k / pixel_size pts)"
      using h(3) by (simp add: estimate_distance_def)
    moreover have "estimate_distance cfg pts' = Some (?k / pixel_size pts')"
      using h(3,4) by (simp add: estimate_distance_def)
    ultimately show ?thesis by blast
  qed
  from mono have mono': "0 < qr_size_cm cfg \<and> 0 < fx cfg \<and> 1 / 100000 \<le> pixel_size pts
        \<and> pixel_size pts < pixel_size pts' \<longrightarrow>
        (\<exists>d d'. estimate_distance cfg pts = Some d \<and> estimate_distance cfg pts' = Some d'
                \<and> 0 < d' \<and> d' < d)"
    by blast
  from edge fails_q formula_q fails formula mono' show ?thesis
    by (intro conjI)
qed

theorem estimate_distance_correct_witness:
  "0 < qr_size_cm cam0 \<and> 0 < fx cam0
   \<and> pixel_size oblique_small = (sqrt (3 * 3 + 4 * 4) + sqrt (6 * 6 + 8 * 8)) / 2
   \<and> pixel_size oblique_small = 15 / 2
   \<and> pixel_size oblique_large = 150
   \<and> 1 / 100000 \<le> pixel_size oblique_small
   \<and> pixel_size oblique_small < pixel_size oblique_large
   \<and> estimate_distance cam0 oblique_small = Some 400
   \<and> estimate_distance cam0 oblique_large = Some 20
   \<and> estimate_distance cam0 (square 30) = Some 100
   \<and> estimate_distance cam0 (square 60) = Some 50
   \<and> estimate_distance cam0 (square 0) = None
   \<and> estimate_distance cam0 ((1, 1), (1, 1), (2, 5), (2, 5)) = None"
proof -
  note t = estimate_distance_correct [of 10 20 13 24 14 38 8 30 cam0 oblique_small oblique_large]
  from t have e: "pixel_size oblique_small = (sqrt (3 * 3 + 4 * 4) + sqrt (6 * 6 + 8 * 8)) / 2"
    by (simp add: oblique_small_def)
  have "0 < qr_size_cm cam0 \<and> 0 < fx cam0" by (simp add: cam0_def)
  moreover have "estimate_distance cam0 oblique_small = Some 400"
    "estimate_distance cam0 oblique_large = Some 20"
    by (simp_all add: estimate_distance_def pixel_size_oblique_small pixel_size_oblique_large
        cam0_def)
  moreover have "estimate_distance cam0 (square 30) = Some 100"
    "estimate_distance cam0 (square 60) = Some 50"
    "estimate_distance cam0 (square 0) = None"
    by (simp_all add: estimate_distance_def pixel_size_square cam0_def)
  moreover have "estimate_distance cam0 ((1, 1), (1, 1), (2, 5), (2, 5)) = None"
    using estimate_distance_correct [of 1 1 1 1 2 5 2 5 cam0] by simp
  ultimately show ?thesis
    using e by (simp add: pixel_size_oblique_small pixel_size_oblique_large)
qed

section \<open>Properties of the obstacle avoidance state machine\<close>

lemma chain_ok_snoc:
  "chain_ok xs \<Longrightarrow> xs \<noteq> [] \<Longrightarrow> step_ok (last xs) b \<Longrightarrow> chain_ok (xs @ [b])"
  by (induction xs rule: chain_ok.induct) auto

lemma phase_start_phase [simp]: "phase (start_phase name t s) = Some name"
  by (simp add: start_phase_def)

lemma avoid_mode_start_phase [simp]: "avoid_mode (start_phase name t s) = avoid_mode s"
  by (simp add: start_phase_def)

lemma hist_ok_start_phase:
  assumes "hist_ok s" "step_ok (phase s) (Some name)"
  shows "hist_ok (start_phase name t s)"
proof -
  have "chain_ok ((None # phase_history s) @ [Some name])"
    using assms by (intro chain_ok_snoc) (simp_all add: hist_ok_def)
  then show ?thesis by (simp add: hist_ok_def start_phase_def)
qed

lemma hist_ok_reset:
  assumes "hist_ok s" "phase s = Some FORWARD_2"
  shows "hist_ok (s\<lparr>phase := None, phase_history := phase_history s @ [None]\<rparr>)"
proof -
  have "chain_ok ((None # phase_history s) @ [None])"
    using assms by (intro chain_ok_snoc) (simp_all add: hist_ok_def)
  then show ?thesis by (simp add: hist_ok_def)
qed

lemma hist_ok_avoid_mode [simp]: "hist_ok (s\<lparr>avoid_mode := b\<rparr>) = hist_ok s"
  by (simp add: hist_ok_def)

lemma read_distance_frame:
  "read_distance s raw = (d, s1) \<Longrightarrow>
   phase s1 = phase s \<and> avoid_mode s1 = avoid_mode s \<and> phase_history s1 = phase_history s
   \<and> phase_start s1 = phase_start s
   \<and> stop_distance_cm s1 = stop_distance_cm s \<and> safe_distance_cm s1 = safe_distance_cm s
   \<and> right_turn_time s1 = right_turn_time s \<and> forward_time_1 s1 = forward_time_1 s
   \<and> left_turn_time s1 = left_turn_time s \<and> forward_time_2 s1 = forward_time_2 s"
  by (auto simp: read_distance_def median_filter_def dynamic_threshold_adjust_def Let_def
      split: option.splits if_splits)

lemma update_phases_good:
  assumes "hist_ok s0" "avoid_mode s0"
  shows "hist_ok (snd (update_phases d csd clk s0 n0)) \<and> avoid_mode (snd (update_phases d csd clk s0 n0))"
proof (cases "phase s0")
  case None
  with assms show ?thesis by (simp add: update_phases_def)
next
  case (Some p)
  show ?thesis
  proof (cases p)
    case TURN_RIGHT
    with Some assms show ?thesis
      by (auto simp: update_phases_def Let_def intro!: hist_ok_start_phase hist_ok_reset)
  next
    case FORWARD_1
    with Some assms show ?thesis
      by (auto simp: update_phases_def Let_def intro!: hist_ok_start_phase hist_ok_reset)
  next
    case TURN_LEFT
    with Some assms show ?thesis
      by (auto simp: update_phases_def Let_def intro!: hist_ok_start_phase hist_ok_reset)
  next
    case FORWARD_2
    with Some assms show ?thesis
      by (auto simp: update_phases_def Let_def intro!: hist_ok_start_phase hist_ok_reset)
  next
    case STOP_CLOSE
    with Some assms show ?thesis by (simp add: update_phases_def)
  qed
qed

lemma hist_ok_read_distance:
  "read_distance s raw = (d, s1) \<Longrightarrow> hist_ok s1 = hist_ok s"
  by (drule read_distance_frame) (simp add: hist_ok_def)

lemma update_phases_mode:
  "avoid_mode s0 \<Longrightarrow> avoid_mode (snd (update_phases d csd clk s0 n0))"
  by (auto simp: update_phases_def Let_def)

lemma sensor_inv_update:
  assumes "sensor_inv s"
  shows "sensor_inv (snd (update s raw clk))"
proof -
  obtain d s1 where rd: "read_distance s raw = (d, s1)" by (cases "read_distance s raw")
  note fr = read_distance_frame [OF rd]
  have h1: "hist_ok s1" using assms hist_ok_read_distance [OF rd] by (simp add: sensor_inv_def)
  have m1: "avoid_mode s1 \<or> phase s1 = None" using assms fr by (simp add: sensor_inv_def)
  show ?thesis
  proof (cases "d \<le> stop_distance_cm s1")
    case True
    then have "snd (update s raw clk) = start_phase STOP_CLOSE (clk 0) (s1\<lparr>avoid_mode := True\<rparr>)"
      using rd by (simp add: update_def Let_def)
    moreover have "hist_ok (start_phase STOP_CLOSE (clk 0) (s1\<lparr>avoid_mode := True\<rparr>))"
      using h1 by (intro hist_ok_start_phase) simp_all
    ultimately show ?thesis by (simp add: sensor_inv_def)
  next
    case False
    let ?csd = "dynamic_safe_distance s1"
    show ?thesis
    proof (cases "d \<le> ?csd \<and> \<not> avoid_mode s1")
      case enter: True
      let ?s2 = "start_phase TURN_RIGHT (clk 0) (s1\<lparr>avoid_mode := True\<rparr>)"
      have eq: "snd (update s raw clk) = snd (update_phases d ?csd clk ?s2 1)"
        using rd False enter by (simp add: update_def Let_def)
      have "phase s1 = None" using m1 enter by simp
      then have "hist_ok ?s2" using h1 by (intro hist_ok_start_phase) simp_all
      then show ?thesis
        using update_phases_good [of ?s2 d ?csd clk 1] eq by (simp add: sensor_inv_def)
    next
      case stay: False
      show ?thesis
      proof (cases "d > ?csd * 1.8 \<and> avoid_mode s1 \<and> phase s1 = None")
        case leave: True
        then have "snd (update s raw clk) = s1\<lparr>avoid_mode := False\<rparr>"
          using rd False stay by (simp add: update_def Let_def)
        with h1 leave show ?thesis by (simp add: sensor_inv_def)
      next
        case keep: False
        show ?thesis
        proof (cases "avoid_mode s1")
          case True
          then have "snd (update s raw clk) = snd (update_phases d ?csd clk s1 0)"
            using rd False stay keep by (auto simp: update_def Let_def)
          then show ?thesis
            using update_phases_good [of s1 d ?csd clk 0] h1 True by (simp add: sensor_inv_def)
        next
          case nm: False
          then have "snd (update s raw clk) = s1"
            using rd False stay keep by (auto simp: update_def Let_def)
          with h1 m1 show ?thesis by (simp add: sensor_inv_def)
        qed
      qed
    qed
  qed
qed

lemma sensor_inv_init: "sensor_inv (ObstacleSensor_init safe stop rt f1 lt f2)"
  by (simp add: sensor_inv_def hist_ok_def ObstacleSensor_init_def)

lemma sensor_inv_run: "sensor_inv s \<Longrightarrow> sensor_inv (run_updates s polls)"
  by (induction polls arbitrary: s) (auto simp: sensor_inv_update)

lemma update_stop:
  assumes "fst (read_distance s raw) \<le> stop_distance_cm s"
  shows "phase (snd (update s raw clk)) = Some STOP_CLOSE
     \<and> avoid_mode (snd (update s raw clk))
     \<and> o_phase (fst (update s raw clk)) = Some STOP_CLOSE
     \<and> o_need_stop (fst (update s raw clk)) = Some True
     \<and> o_action (fst (update s raw clk)) = Some ''stop''"
proof -
  obtain d s1 where rd: "read_distance s raw = (d, s1)" by (cases "read_distance s raw")
  note fr = read_distance_frame [OF rd]
  have "d \<le> stop_distance_cm s1" using assms rd fr by simp
  then show ?thesis using rd by (simp add: update_def Let_def create_state_def)
qed

text \<open>
  C2: across every sequence of \<open>update\<close> calls on a freshly built sensor, the successive
  values of the phase field form a chain in which every step is a step of the cycle
  \<open>None, TURN_RIGHT, FORWARD_1, TURN_LEFT, FORWARD_2, None\<close> or an entry into
  \<open>STOP_CLOSE\<close> (no phase is skipped or reordered), the chain ends in the current phase,
  and from every sensor state a call whose distance reading (the value of
  \<open>self.read_distance()\<close>) is at or below the stop threshold leaves the phase at
  \<open>STOP_CLOSE\<close>.
\<close>

theorem phase_follows_cycle:
  "chain_ok (None # phase_history (run_updates (ObstacleSensor_init safe stop rt f1 lt f2) polls))
   \<and> phase (run_updates (ObstacleSensor_init safe stop rt f1 lt f2) polls)
       = last (None # phase_history (run_updates (ObstacleSensor_init safe stop rt f1 lt f2) polls))
   \<and> (fst (read_distance s raw) \<le> stop_distance_cm s \<longrightarrow>
        phase (snd (update s raw clk)) = Some STOP_CLOSE)"
proof -
  have "sensor_inv (run_updates (ObstacleSensor_init safe stop rt f1 lt f2) polls)"
    by (rule sensor_inv_run [OF sensor_inv_init])
  then show ?thesis using update_stop [of s raw clk] by (simp add: sensor_inv_def hist_ok_def)
qed


lemma run_polls5:
  "phase_history (run_updates sensor0 polls5)
     = [Some TURN_RIGHT, Some FORWARD_1, Some TURN_LEFT, Some FORWARD_2, None]"
  by (simp add: polls5_def sensor0_def ObstacleSensor_init_def update_def update_phases_def
      read_distance_def median_filter_def dynamic_threshold_adjust_def filter_size_def
      list_max_def list_min_def start_phase_def phase_elapsed_def create_state_def clock_at_def Let_def)

theorem phase_follows_cycle_witness:
  "phase_history (run_updates sensor0 polls5)
     = [Some TURN_RIGHT, Some FORWARD_1, Some TURN_LEFT, Some FORWARD_2, None]
   \<and> chain_ok (None # phase_history (run_updates sensor0 polls5))
   \<and> fst (read_distance turning_left (Some 8)) \<le> stop_distance_cm turning_left
   \<and> phase (snd (update turning_left (Some 8) (clock_at 9))) = Some STOP_CLOSE"
proof -
  note t = phase_follows_cycle [of 30 12 "0.8" "0.6" "0.8" "0.6" polls5 turning_left
      "Some 8" "clock_at 9", folded sensor0_def]
  have b: "fst (read_distance turning_left (Some 8)) \<le> stop_distance_cm turning_left"
    by (simp add: turning_left_def sensor0_def ObstacleSensor_init_def
      read_distance_def median_filter_def dynamic_threshold_adjust_def filter_size_def Let_def)
  show ?thesis using t b run_polls5 by simp
qed

text \<open>
  Once entered, \<open>STOP_CLOSE\<close> is never left: no branch of \<open>update\<close> handles that phase,
  and the exit test of avoid mode asks for the phase \<open>None\<close>.
\<close>

lemma stop_close_absorbing:
  assumes "phase s = Some STOP_CLOSE" "avoid_mode s"
  shows "phase (snd (update s raw clk)) = Some STOP_CLOSE
     \<and> avoid_mode (snd (update s raw clk))
     \<and> o_phase (fst (update s raw clk)) = Some STOP_CLOSE
     \<and> o_avoid_mode (fst (update s raw clk)) = Some True"
proof -
  obtain d s1 where rd: "read_distance s raw = (d, s1)" by (cases "read_distance s raw")
  note fr = read_distance_frame [OF rd]
  show ?thesis using rd fr assms
    by (auto simp: update_def update_phases_def Let_def create_state_def start_phase_def)
qed

lemma stop_close_absorbing_run:
  "phase s = Some STOP_CLOSE \<Longrightarrow> avoid_mode s \<Longrightarrow>
   phase (run_updates s polls) = Some STOP_CLOSE \<and> avoid_mode (run_updates s polls)"
  by (induction polls arbitrary: s) (auto simp: stop_close_absorbing)

text \<open>
  What does hold of \<open>update\<close>: \<open>need_stop\<close> and the action \<open>stop\<close> are returned exactly
  for a distance reading at or below the stop threshold, and avoid mode is cleared only
  with the phase \<open>None\<close> and a distance above 1.8 times the safe distance in use.
\<close>

lemma need_stop_iff:
  "o_need_stop (fst (update s raw clk)) = Some (fst (read_distance s raw) \<le> stop_distance_cm s)
   \<and> (o_action (fst (update s raw clk)) = Some ''stop'' \<longleftrightarrow>
        fst (read_distance s raw) \<le> stop_distance_cm s)"
proof -
  obtain d s1 where rd: "read_distance s raw = (d, s1)" by (cases "read_distance s raw")
  note fr = read_distance_frame [OF rd]
  show ?thesis using rd fr
    by (auto simp: update_def update_phases_def Let_def create_state_def)
qed

lemma avoid_mode_cleared_only:
  assumes "avoid_mode s" "\<not> avoid_mode (snd (update s raw clk))"
  shows "phase s = None
     \<and> fst (read_distance s raw) > dynamic_safe_distance (snd (read_distance s raw)) * 1.8
     \<and> o_safe_distance (fst (update s raw clk)) = Some (dynamic_safe_distance (snd (read_distance s raw)))"
proof -
  obtain d s1 where rd: "read_distance s raw = (d, s1)" by (cases "read_distance s raw")
  note fr = read_distance_frame [OF rd]
  have stop: "\<not> d \<le> stop_distance_cm s1"
    using assms(2) rd by (auto simp: update_def Let_def)
  have "d > dynamic_safe_distance s1 * 1.8 \<and> phase s1 = None"
  proof (rule ccontr)
    assume n: "\<not> ?thesis"
    have "avoid_mode s1" using assms(1) fr by simp
    then have "snd (update s raw clk) = snd (update_phases d (dynamic_safe_distance s1) clk s1 0)"
      using rd stop n by (auto simp: update_def Let_def)
    with update_phases_mode [of s1 d "dynamic_safe_distance s1" clk 0] \<open>avoid_mode s1\<close> assms(2)
    show False by simp
  qed
  then show ?thesis using rd fr assms(1) stop
    by (auto simp: update_def Let_def create_state_def)
qed

text \<open>
  C3, on the code: after a poll at 8 cm (stop threshold 12 cm) the sensor reports
  \<open>need_stop\<close>; the next poll, at 100 cm, reports no stop but still the phase
  \<open>STOP_CLOSE\<close> and avoid mode, and so do the polls at 200 cm and 300 cm one and two
  minutes later: the phase does not end when the distance rises above the threshold, and
  avoid mode is not cleared.
\<close>

theorem stop_close_never_left:
  "o_need_stop (fst (update sensor0 (Some 8) (clock_at 0))) = Some True
   \<and> fst (update after_stop (Some 100) (clock_at 1))
       = \<lparr>o_obstacle_near = Some False, o_need_stop = Some False, o_avoid_mode = Some True,
          o_phase = Some STOP_CLOSE, o_action = None, o_distance_cm = Some 100,
          o_safe_distance = Some 30, o_obstacle_type = None, o_ground_obstacle_confirmed = None\<rparr>
   \<and> phase (run_updates after_stop [(Some 100, clock_at 1), (Some 200, clock_at 60), (Some 300, clock_at 120)])
       = Some STOP_CLOSE
   \<and> avoid_mode (run_updates after_stop [(Some 100, clock_at 1), (Some 200, clock_at 60), (Some 300, clock_at 120)])"
  by (simp add: after_stop_def sensor0_def ObstacleSensor_init_def update_def update_phases_def
      read_distance_def median_filter_def dynamic_threshold_adjust_def filter_size_def
      list_max_def list_min_def start_phase_def phase_elapsed_def create_state_def clock_at_def Let_def)

section \<open>Properties of the motion synthesizer\<close>

lemmas mc_defs = MotionController_init_def default_params_def get_or_def
  update_rotation_estimate_def estimate_rotation_def py_mod_def search_toward_target_def
  smart_avoidance_def avoidance_speeds_def clamp_def compute_def lost_state_def
  no_obstacle_def turning_right_def max_history_def Let_def

text \<open>
  C1, on the code (speeds within \<open>[min_speed, max_speed]\<close>). \<open>_clamp\<close> is applied only in the
  emergency branch and in the ground-obstacle branches of \<open>_smart_avoidance\<close>; the other
  branches return their speeds as computed. With \<open>max_speed\<close> configured to 0.2 (and every
  other key at its default), a lost marker and an obstacle with the action \<open>right\<close> at
  25 cm, \<open>compute\<close> returns \<open>right_speed = base_turn = 0.28\<close>, above \<open>max_speed\<close>.
\<close>

theorem compute_exceeds_max_speed:
  "max_speed slow_mc = 0.2 \<and> min_speed slow_mc = - 1
   \<and> compute slow_mc lost_state turning_right None 1
       = Inr (\<lparr>left_speed = - 0.28, right_speed = 0.28, mode = ''avoid_right'',
               rotation_estimate = 0\<rparr>,
             slow_mc\<lparr>last_mode := ''avoid_right'', last_left_speed := - 0.196,
                     last_right_speed := 0.28, last_update_time := 1\<rparr>)
   \<and> \<not> (0.28 :: real) \<le> 0.2"
  by (simp add: slow_mc_def slow_params_def mc_defs)

text \<open>
  With the default configuration the unclamped branches stay inside the default limits:
  for a controller whose configured attributes have the default values of \<open>__init__\<close>
  and whose \<open>Halt\<close> is 0 or 1 (as \<open>__init__\<close> and \<open>_smart_avoidance\<close> leave it), every
  call of \<open>compute\<close> that returns gives both speeds within \<open>[-1, 1]\<close>. The violation
  above needs a configured limit below the configured base speeds.
\<close>

lemma search_toward_target_default:
  assumes sb: "search_base_speed mc = 0.2" and tg: "search_turn_gain mc = 0.3"
      and hl: "Halt mc = 0 \<or> Halt mc = 1"
      and res: "search_toward_target mc td cr = (l, r, m)"
  shows "0 \<le> l \<and> l \<le> 0.2 \<and> 0 \<le> r \<and> r \<le> 0.2"
proof -
  define df where "df = max (- 100) (min 100 td) / 100"
  have df: "\<bar>df\<bar> \<le> 1" by (auto simp: df_def max_def min_def abs_if)
  from hl show ?thesis
  proof
    assume h: "Halt mc = 0"
    from res show ?thesis
      unfolding search_toward_target_def Let_def sb tg h
      by (auto split: if_splits)
  next
    assume h: "Halt mc = 1"
    from res df show ?thesis
      unfolding search_toward_target_def Let_def df_def [symmetric] sb tg h
      by (auto simp: max_def abs_if split: if_splits)
  qed
qed

lemma clamp_default:
  "max_speed mc = 1 \<Longrightarrow> min_speed mc = - 1 \<Longrightarrow> - 1 \<le> clamp mc v \<and> clamp mc v \<le> 1"
  by (simp add: clamp_def)

lemma avoidance_speeds_default:
  assumes sb: "search_base_speed mc = 0.2" and tg: "search_turn_gain mc = 0.3"
      and bt: "base_turn mc = 0.28" and bf: "base_forward mc = 0.35"
      and mx: "max_speed mc = 1" and mn: "min_speed mc = - 1"
      and hl: "Halt mc = 0 \<or> Halt mc = 1"
      and res: "avoidance_speeds mc ob td cr = (l, r, m)"
  shows "- 1 \<le> l \<and> l \<le> 1 \<and> - 1 \<le> r \<and> r \<le> 1"
proof (cases "get_or (o_distance_cm ob) 9999 \<le> obstacle_stop_distance mc
              \<or> o_action ob = Some ''stop'' \<or> o_action ob = Some ''right''
              \<or> o_action ob = Some ''left'' \<or> o_action ob = Some ''forward''")
  case False
  with res have "search_toward_target mc td cr = (l, r, m)"
    by (simp add: avoidance_speeds_def Let_def)
  from search_toward_target_default [OF sb tg hl this] show ?thesis by simp
next
  case True
  note c = clamp_default [OF mx mn]
  from hl show ?thesis
  proof
    assume h: "Halt mc = 0"
    from res True c show ?thesis
      unfolding avoidance_speeds_def Let_def sb bt bf h
      by (auto split: if_splits)
  next
    assume h: "Halt mc = 1"
    from res True c show ?thesis
      unfolding avoidance_speeds_def Let_def sb bt bf h
      by (auto split: if_splits)
  qed
qed


lemma scaled_forward:
  fixes f k :: real
  assumes "0 \<le> f" "f \<le> 1" "0 \<le> k" "k \<le> 1"
  shows "0 \<le> max 0 (f * k) \<and> max 0 (f * k) \<le> 1"
proof -
  have "f * k \<le> 1 * 1" using assms by (intro mult_mono) auto
  then show ?thesis by simp
qed

lemma normal_tracking_default:
  assumes bf: "base_forward mc = 0.35" and mx: "max_speed mc = 1"
      and tc: "turn_comp mc = 0.45" and tf: "track_far mc = 120" and sn: "stop_near mc = 22"
      and res: "normal_tracking mc qr ob = Inr ((l, r, m), lm)"
  shows "0 \<le> l \<and> l \<le> 1 \<and> 0 \<le> r \<and> r \<le> 1"
proof -
  from res obtain d off where q: "distance_cm qr = Some d" "offsets qr = Some off"
    by (auto simp: normal_tracking_def split: option.splits)
  let ?ground = "get_or (o_obstacle_type ob) ''unknown'' = ''ground_obstacle''
              \<and> get_or (o_distance_cm ob) 9999 < obstacle_safe_distance mc
              \<and> get_or (o_distance_cm ob) 9999 < d * 0.8"
  show ?thesis
  proof (cases ?ground)
    case True
    with res q show ?thesis
      unfolding normal_tracking_def Let_def bf
      by (auto split: if_splits)
  next
    case ng: False
    show ?thesis
    proof (cases "d \<le> 22")
      case True
      with res q ng show ?thesis
        unfolding normal_tracking_def Let_def sn
        by (auto split: if_splits)
    next
      case far: False
      define df where "df = min 1 ((d - 22) / (120 - 22))"
      define f0 where "f0 = 0.35 + df * (1 - 0.35)"
      define f1 where "f1 = (if pitch_trend off > 5 then f0 * 1.1
                              else if pitch_trend off < - 5 then f0 * 0.9 else f0)"
      define f where "f = min f1 1"
      define k where "k = 1 - min (\<bar>cx_off off\<bar> / 100) 1 * 0.45"
      have df: "0 \<le> df" "df \<le> 1" using far by (auto simp: df_def)
      have f0: "0 \<le> f0" using df by (simp add: f0_def)
      have f1: "0 \<le> f1" using f0 by (simp add: f1_def)
      have f: "0 \<le> f" "f \<le> 1" using f1 by (auto simp: f_def)
      have k: "0 \<le> k" "k \<le> 1" by (auto simp: k_def min_def)
      have out: "(l, r) = (if \<bar>cx_off off\<bar> < dead_zone_px mc then (max 0 f, max 0 f)
                     else if cx_off off > 0 then (max 0 f, max 0 (f * k))
                     else (max 0 (f * k), max 0 f))"
        using res q ng far
        unfolding normal_tracking_def Let_def bf mx tc tf sn f_def f1_def f0_def df_def k_def
        by (auto split: if_splits)
      from out scaled_forward [OF f k] f show ?thesis
        by (auto split: if_splits)
    qed
  qed
qed

lemma compute_default_in_range:
  assumes cfg: "base_forward mc = 0.35" "base_turn mc = 0.28" "turn_comp mc = 0.45"
               "max_speed mc = 1" "min_speed mc = - 1" "track_far mc = 120" "stop_near mc = 22"
               "search_base_speed mc = 0.2" "search_turn_gain mc = 0.3"
      and hl: "Halt mc = 0 \<or> Halt mc = 1"
      and res: "compute mc qr ob ex now = Inr (cmd, mc')"
  shows "- 1 \<le> left_speed cmd \<and> left_speed cmd \<le> 1
         \<and> - 1 \<le> right_speed cmd \<and> right_speed cmd \<le> 1
         \<and> (Halt mc' = 0 \<or> Halt mc' = 1)"
proof -
  obtain c m1 where u: "update_rotation_estimate mc (last_left_speed mc) (last_right_speed mc) now = (c, m1)"
    by (cases "update_rotation_estimate mc (last_left_speed mc) (last_right_speed mc) now")
  have m1: "m1 = mc\<lparr>cumulative_rotation := c, last_update_time := now\<rparr>"
    using u by (auto simp: update_rotation_estimate_def Let_def split: if_splits)
  have cfg1: "base_forward m1 = 0.35" "base_turn m1 = 0.28" "turn_comp m1 = 0.45"
               "max_speed m1 = 1" "min_speed m1 = - 1" "track_far m1 = 120" "stop_near m1 = 22"
               "search_base_speed m1 = 0.2" "search_turn_gain m1 = 0.3"
    and hl1: "Halt m1 = 0 \<or> Halt m1 = 1"
    using cfg hl by (simp_all add: m1)
  define td where "td = (case ex of None \<Rightarrow> 0 | Some e \<Rightarrow> get_or (target_direction e) 0)"
  show ?thesis
  proof (cases "lost qr = Some False")
    case True
    from res True obtain l r m lm where nt: "normal_tracking m1 qr ob = Inr ((l, r, m), lm)"
      and cmd: "left_speed cmd = l" "right_speed cmd = r" and h: "Halt mc' = Halt m1"
      unfolding compute_def u Let_def prod.case
      by (auto split: sum.splits prod.splits)
    from normal_tracking_default [OF cfg1(1) cfg1(4) cfg1(3) cfg1(6) cfg1(7) nt] cmd h hl1
    show ?thesis by auto
  next
    case False
    show ?thesis
    proof (cases "o_obstacle_near ob = Some True")
      case True
      define mh where "mh = m1\<lparr>Halt := (if o_need_stop ob = Some True then 0 else 1)\<rparr>"
      from res False True obtain l r m where av: "avoidance_speeds mh ob td c = (l, r, m)"
        and cmd: "left_speed cmd = l" "right_speed cmd = r" and h: "Halt mc' = Halt mh"
        unfolding compute_def u Let_def prod.case smart_avoidance_def mh_def td_def
        by (auto split: option.splits prod.splits)
      have hh: "Halt mh = 0 \<or> Halt mh = 1" by (simp add: mh_def)
      have cfgh: "search_base_speed mh = 0.2" "search_turn_gain mh = 0.3" "base_turn mh = 0.28"
        "base_forward mh = 0.35" "max_speed mh = 1" "min_speed mh = - 1"
        using cfg1 by (simp_all add: mh_def)
      from avoidance_speeds_default [OF cfgh hh av] cmd h hh show ?thesis by auto
    next
      case nn: False
      from res False nn obtain l r m where st: "search_toward_target m1 td c = (l, r, m)"
        and cmd: "left_speed cmd = l" "right_speed cmd = r" and h: "Halt mc' = Halt m1"
        unfolding compute_def u Let_def prod.case td_def
        by (auto split: prod.splits)
      from search_toward_target_default [OF cfg1(8) cfg1(9) hl1 st] cmd h hl1
      show ?thesis by auto
    qed
  qed
qed








section \<open>Properties of the baseline motion controller\<close>



text \<open>On a dictionary in avoid mode without the key \<open>action\<close> both calls raise.\<close>

lemma base_compute_no_action:
  "base_compute base0 seen_right base_no_action = Inl KeyError
   \<and> base_compute base0 lost_state base_no_action = Inl KeyError"
  by (simp add: base_compute_def base_no_action_def avoid_motion_def)

section \<open>Properties of the mode orchestrator loops\<close>

text \<open>
  The search loop makes at most five attempts, whatever the attempts meet; the function
  itself is total.
\<close>

lemma search_attempts_bound:
  "fst (snd (search_attempts ev n w)) \<le> max n max_search_attempts"
proof (induction ev n w rule: search_attempts.induct)
  case (1 ev n w)
  show ?case
  proof (cases "control_mode w = ''search'' \<and> n < max_search_attempts")
    case False
    then show ?thesis by (subst search_attempts.simps) auto
  next
    case True
    have rest: "ev n \<noteq> Found \<Longrightarrow>
                fst (snd (search_attempts ev (Suc n) w)) \<le> max_search_attempts"
      using 1 [OF True] True by (cases "ev n") (auto simp: max_def split: if_splits)
    show ?thesis
      using True rest
      by (subst search_attempts.simps) (cases "ev n"; simp add: max_def)
  qed
qed

lemma search_control_loop_bounded: "fst (search_control_loop ev w) \<le> max_search_attempts"
proof -
  have "fst (snd (search_attempts ev 0 w)) \<le> max_search_attempts"
    using search_attempts_bound [of ev 0 w] by simp
  then show ?thesis
    by (cases "search_attempts ev 0 w") (simp add: search_control_loop_def)
qed

lemma search_attempts_not_found:
  "control_mode w = ''search'' \<Longrightarrow> \<forall>k. n \<le> k \<and> k < max_search_attempts \<longrightarrow> ev k \<noteq> Found
   \<Longrightarrow> n \<le> max_search_attempts
   \<Longrightarrow> search_attempts ev n w = (False, max_search_attempts, w)"
proof (induction ev n w rule: search_attempts.induct)
  case (1 ev n w)
  show ?case
  proof (cases "n < max_search_attempts")
    case False
    with 1(5) have "n = max_search_attempts" by simp
    then show ?thesis by (simp add: search_attempts.simps)
  next
    case True
    with 1(3) have c: "control_mode w = ''search'' \<and> n < max_search_attempts" by simp
    from 1(4) True have nf: "ev n \<noteq> Found" by simp
    have rest: "search_attempts ev (Suc n) w = (False, max_search_attempts, w)"
    proof (cases "ev n")
      case Found with nf show ?thesis by simp
    next
      case NotFound
      show ?thesis using 1(1) [OF c NotFound] 1(3,4) True by simp
    next
      case Raised
      show ?thesis using 1(2) [OF c Raised] 1(3,4) True by simp
    qed
    show ?thesis
      using c nf rest by (cases "ev n") (simp_all add: search_attempts.simps [of ev n w])
  qed
qed

text \<open>
  A marker found on the third attempt switches to auto mode and restarts the auto thread;
  the avoidance loop does the same when its five attempts are used up.
\<close>

lemma search_found_returns_to_auto:
  "search_control_loop (\<lambda>k. if k = 2 then Found else NotFound) (entering ''search'')
     = (3, \<lparr>control_mode = ''auto'', target_qr_detected = True, auto_threads_started = 1\<rparr>)"
  by (simp add: search_control_loop_def entering_def search_attempts.simps
      max_search_attempts_def restart_auto_mode_def)

lemma avoidance_exhausted_returns_to_auto:
  "avoidance_control_loop (\<lambda>k. Measured (Some 10)) (entering ''avoidance'')
     = (5, \<lparr>control_mode = ''auto'', target_qr_detected = False, auto_threads_started = 1\<rparr>)"
  by (simp add: avoidance_control_loop_def entering_def avoidance_attempts.simps
      max_avoidance_attempts_def SAFE_DISTANCE_def restart_auto_mode_def)

text \<open>
  C8, on the code (search attempts exhausted). When \<open>search_control_loop\<close> is entered in search
  mode and none of its five attempts finds the marker, it returns after exactly five
  attempts with the globals as they were: \<open>control_mode\<close> is still \<open>search\<close>, not
  \<open>auto\<close>, and no auto thread is started.
\<close>

theorem search_exhausted_stays_in_search:
  assumes "control_mode w = ''search''"
      and "\<forall>k<max_search_attempts. ev k \<noteq> Found"
  shows "search_control_loop ev w = (5, w)
         \<and> control_mode (snd (search_control_loop ev w)) \<noteq> ''auto''"
proof -
  have "search_attempts ev 0 w = (False, max_search_attempts, w)"
    using assms by (intro search_attempts_not_found) auto
  then have "search_control_loop ev w = (5, w)"
    by (simp add: search_control_loop_def max_search_attempts_def)
  with assms(1) show ?thesis by simp
qed

theorem search_exhausted_stays_in_search_witness:
  "control_mode (entering ''search'') = ''search''
   \<and> search_control_loop (\<lambda>k. NotFound) (entering ''search'')
       = (5, \<lparr>control_mode = ''search'', target_qr_detected = False,
              auto_threads_started = 0\<rparr>)"
  using search_exhausted_stays_in_search [of "entering ''search''" "\<lambda>k. NotFound"]
  by (simp add: entering_def)

end
